theory Spec2Isabelle
  imports Complex_Main "HOL-Library.Sublist"
begin

section \<open>JavaScript values used by the service\<close>

text \<open>
  The service is JavaScript. Numbers are modelled with exact arithmetic on \<open>real\<close>;
  the three non-finite results a division can give are kept apart in \<open>jsnum\<close>,
  because the code compares them against thresholds (\<open>NaN > 0.7\<close> is false).
  Identifiers and keys (user ids, pattern types, level names) are \<open>string\<close>. A text
  that the code lower-cases is a list of UTF-16 code units, \<open>jsstring\<close> (a code unit
  is a number below 65536; nothing below depends on that bound), and \<open>str\<close> writes a
  literal as one.
\<close>

type_synonym jsstring = "nat list"

definition str :: "string \<Rightarrow> jsstring" where
  "str s = map of_char s"

text \<open>
  \<open>String.prototype.toLowerCase\<close> belongs to the runtime, not to the sources: every
  function below that calls it takes it as its first argument, named \<open>toLowerCase\<close>,
  and the properties are proved for every function on strings. On a string of ASCII
  code units (below 128) it turns \<open>A\<close> to \<open>Z\<close> into \<open>a\<close> to \<open>z\<close> and leaves the
  rest alone; \<open>lower_ascii\<close> does that, and stands for it on the sample inputs, which
  are ASCII.
\<close>

definition lower_unit :: "nat \<Rightarrow> nat" where
  "lower_unit c = (if 65 \<le> c \<and> c \<le> 90 then c + 32 else c)"

definition lower_ascii :: "jsstring \<Rightarrow> jsstring" where
  "lower_ascii s = map lower_unit s"

datatype jsnum = Fin real | PInf | NInf | NaN

text \<open>\<open>a / b\<close> on finite operands (the divisor is never \<open>-0\<close> in the code modelled).\<close>

definition js_div :: "real \<Rightarrow> real \<Rightarrow> jsnum" where
  "js_div a b =
     (if b \<noteq> 0 then Fin (a / b)
      else if a > 0 then PInf else if a < 0 then NInf else NaN)"

text \<open>Multiplication or division of a JavaScript number by a positive finite constant.\<close>

fun js_scale :: "jsnum \<Rightarrow> real \<Rightarrow> jsnum" where
  "js_scale (Fin x) c = Fin (x * c)"
| "js_scale PInf c = PInf"
| "js_scale NInf c = NInf"
| "js_scale NaN c = NaN"

text \<open>\<open>x > c\<close>, \<open>x < c\<close> and \<open>Math.min(x, c)\<close> against a finite constant.\<close>

fun js_gt :: "jsnum \<Rightarrow> real \<Rightarrow> bool" where
  "js_gt (Fin x) c = (x > c)"
| "js_gt PInf c = True"
| "js_gt NInf c = False"
| "js_gt NaN c = False"

fun js_lt :: "jsnum \<Rightarrow> real \<Rightarrow> bool" where
  "js_lt (Fin x) c = (x < c)"
| "js_lt PInf c = False"
| "js_lt NInf c = True"
| "js_lt NaN c = False"

fun js_min :: "jsnum \<Rightarrow> real \<Rightarrow> jsnum" where
  "js_min (Fin x) c = Fin (min x c)"
| "js_min PInf c = Fin c"
| "js_min NInf c = NInf"
| "js_min NaN c = NaN"

text \<open>\<open>Math.round\<close>: the nearest integer, halves rounded up.\<close>

definition js_round :: "real \<Rightarrow> real" where
  "js_round x = of_int \<lfloor>x + 1 / 2\<rfloor>"

text \<open>\<open>x || d\<close> on an optional number: \<open>undefined\<close>, \<open>null\<close> and \<open>0\<close> give \<open>d\<close>.\<close>

definition or_default :: "real option \<Rightarrow> real \<Rightarrow> real" where
  "or_default x d = (case x of None \<Rightarrow> d | Some v \<Rightarrow> if v = 0 then d else v)"

text \<open>\<open>s.includes(m)\<close>: \<open>m\<close> starts at some position of \<open>s\<close>.\<close>

fun js_includes :: "'a list \<Rightarrow> 'a list \<Rightarrow> bool" where
  "js_includes [] m = (m = [])"
| "js_includes (c # cs) m = (prefix m (c # cs) \<or> js_includes cs m)"

datatype severity = Critical | High | Medium

text \<open>The body of an analyze request; a property that is absent is \<open>None\<close>.\<close>

record analyze_request =
  body_userId :: "string option"
  body_message :: "string option"

text \<open>\<open>!x\<close> on an optional string: a missing, \<open>null\<close> or empty value.\<close>

definition falsy :: "string option \<Rightarrow> bool" where
  "falsy x = (case x of None \<Rightarrow> True | Some s \<Rightarrow> s = [])"

text \<open>The operations a handler starts, in order, kept as a trace of its effects.\<close>

datatype call =
    Call_analyzeUser
  | Call_detectAllPatternsBrutally
  | Call_getUserResistanceLevel
  | Call_generateIntervention

text \<open>The errors that the code modelled here throws.\<close>

datatype exn = TypeError | Breaker_rejected | Not_initialized

text \<open>
  A call of the datastore client that reads or writes one row. The client
  (\<open>@supabase/supabase-js\<close> 2, by \<open>package.json\<close>) does not throw: a call that
  fails comes back with an \<open>error\<close> and with \<open>null\<close> data.
\<close>

datatype db_call = Succeeds | Fails

section \<open>brutal-interventions.js\<close>

subsection \<open>Template selection\<close>

text \<open>The object \<open>this.resistanceLevels\<close>: a lookup keyed by the numbers 0 to 5.\<close>

definition resistanceLevels :: "int \<rightharpoonup> string" where
  "resistanceLevels =
     [0 \<mapsto> ''first_contact'', 1 \<mapsto> ''gentle_nudge'', 2 \<mapsto> ''uncomfortable_truth'',
      3 \<mapsto> ''brutal_reality'', 4 \<mapsto> ''scorched_earth'', 5 \<mapsto> ''existential_crisis'']"

definition level_names :: "string list" where
  "level_names =
     [''first_contact'', ''gentle_nudge'', ''uncomfortable_truth'',
      ''brutal_reality'', ''scorched_earth'', ''existential_crisis'']"

definition template_types :: "string list" where
  "template_types =
     [''procrastination'', ''pricing_cowardice'', ''execution_paralysis'',
      ''competitive_delusion'', ''revenue_stagnation'']"

text \<open>
  \<open>this.interventionGenerators[type]?.[level]\<close>: the table has one template function
  for each of the five pattern types and each of the six level names, and nothing else.
  Either key may be \<open>undefined\<close> (\<open>None\<close>), which finds nothing.
\<close>

definition interventionGenerators :: "string option \<Rightarrow> string option \<Rightarrow> (string \<times> string) option" where
  "interventionGenerators ty level =
     (case (ty, level) of
        (Some t, Some l) \<Rightarrow> if t \<in> set template_types \<and> l \<in> set level_names then Some (t, l) else None
      | _ \<Rightarrow> None)"

text \<open>
  The returned intervention is identified by the template that renders it and the
  evidence the template is filled from: the text itself, a string interpolation of the
  evidence, is not modelled.
\<close>

datatype 'e intervention =
    Insufficient_data
  | Default_brutal 'e
  | Template string string 'e

text \<open>
  The \<open>userData\<close> argument: its \<open>userId\<close>, and whether it has a \<open>businessMetrics\<close>
  property (the callers in \<open>api/analyze.js\<close> and \<open>index.js\<close> pass an object
  without one).
\<close>

record user_data =
  ud_userId :: string
  has_businessMetrics :: bool

text \<open>
  Calling a template. The templates of \<open>brutal_reality\<close> (all pattern types but
  \<open>revenue_stagnation\<close>) and of \<open>scorched_earth\<close> (\<open>procrastination\<close>,
  \<open>pricing_cowardice\<close>, \<open>competitive_delusion\<close>) read
  \<open>userData.businessMetrics.current_mrr\<close> or \<open>.daily_burn_rate\<close>; the
  \<open>existential_crisis\<close> template of \<open>procrastination\<close> reads it once for every
  competitor row, inside \<open>comparison.competitors?.filter\<close>. Reading a property of
  \<open>undefined\<close> throws a \<open>TypeError\<close>. Nothing else in a template throws: a missing
  property of the evidence or of the comparison data is \<open>undefined\<close>, and the lists of
  the comparison data are read through \<open>?.\<close>. \<open>competitors\<close> is the number of
  competitor rows that \<open>getComparisonData\<close> finds (\<open>None\<close> for \<open>null\<close>).
\<close>

definition reads_businessMetrics :: "string \<Rightarrow> string \<Rightarrow> nat option \<Rightarrow> bool" where
  "reads_businessMetrics t l competitors =
     (if l = ''brutal_reality''
      then t \<in> set [''procrastination'', ''pricing_cowardice'', ''execution_paralysis'',
                     ''competitive_delusion'']
      else if l = ''scorched_earth''
      then t \<in> set [''procrastination'', ''pricing_cowardice'', ''competitive_delusion'']
      else if l = ''existential_crisis''
      then t = ''procrastination'' \<and> (case competitors of None \<Rightarrow> False | Some n \<Rightarrow> n > 0)
      else False)"

definition call_template ::
  "string \<Rightarrow> string \<Rightarrow> 'e \<Rightarrow> nat option \<Rightarrow> user_data \<Rightarrow> exn + 'e intervention" where
  "call_template t l evidence competitors userData =
     (if reads_businessMetrics t l competitors \<and> \<not> has_businessMetrics userData
      then Inl TypeError
      else Inr (Template t l evidence))"

text \<open>
  \<open>generateIntervention(pattern, evidence, userData, resistanceLevel = 0)\<close>. The pattern
  argument is given by its \<open>type\<close> property (\<open>None\<close> inside when the object has no such
  property); a missing \<open>resistanceLevel\<close> takes the default 0. The first argument of
  the model is what the competitor query of \<open>getComparisonData\<close> returns, which is
  run only when a template was found.
\<close>

definition selected_level :: "int option \<Rightarrow> string option" where
  "selected_level resistanceLevel =
     resistanceLevels (min (case resistanceLevel of None \<Rightarrow> 0 | Some l \<Rightarrow> l) 5)"

definition generateIntervention ::
  "nat option \<Rightarrow> string option option \<Rightarrow> 'e option \<Rightarrow> user_data option \<Rightarrow> int option
     \<Rightarrow> exn + 'e intervention" where
  "generateIntervention competitors pattern evidence userData resistanceLevel =
     (case (pattern, evidence, userData) of
        (Some ptype, Some ev, Some ud) \<Rightarrow>
          (let level = selected_level resistanceLevel;
               generator = interventionGenerators ptype level
           in case generator of
                None \<Rightarrow> Inr (Default_brutal ev)
              | Some (t, l) \<Rightarrow> call_template t l ev competitors ud)
      | _ \<Rightarrow> Inr Insufficient_data)"

subsection \<open>Resistance tracking\<close>

definition resistanceMarkers :: "jsstring list" where
  "resistanceMarkers =
     map str
       [''but'', ''however'', ''yes but'', [CHR ''c'', CHR ''a'', CHR ''n'', CHR 0x27, CHR ''t''],
        ''impossible'', ''maybe later'', ''not ready'', ''need to think'',
        ''too aggressive'', ''too harsh'', ''unfair'']"

definition resistanceScore :: "(jsstring \<Rightarrow> jsstring) \<Rightarrow> jsstring \<Rightarrow> nat" where
  "resistanceScore toLowerCase userResponse =
     foldl (\<lambda>score marker. score + (if js_includes (toLowerCase userResponse) marker then 1 else 0))
       0 resistanceMarkers"

text \<open>
  The persisted counter: the row of \<open>user_patterns\<close> with pattern type
  \<open>intervention_resistance\<close>, one per user, holding \<open>pattern_data.level\<close> and the
  intervention id (the two timestamps are left out). A successful upsert replaces the
  user's row. \<open>stored_level\<close> is \<open>row?.pattern_data?.level || 0\<close> on the row a read
  finds, 0 when there is none.
\<close>

record resistance_row =
  level :: int
  intervention_id :: string

type_synonym resistance_table = "string \<rightharpoonup> resistance_row"

definition stored_level :: "resistance_table \<Rightarrow> string \<Rightarrow> int" where
  "stored_level db userId = (case db userId of None \<Rightarrow> 0 | Some r \<Rightarrow> level r)"

text \<open>
  The read \<open>select('pattern_data') ... .single()\<close>, of which the code keeps \<open>data\<close>
  only: the user's row, or \<open>null\<close> when there is none or the read failed.
\<close>

definition select_single :: "db_call \<Rightarrow> resistance_table \<Rightarrow> string \<Rightarrow> resistance_row option" where
  "select_single read db userId = (case read of Fails \<Rightarrow> None | Succeeds \<Rightarrow> db userId)"

text \<open>
  \<open>trackResistance(userId, interventionId, userResponse)\<close>, with the outcomes of its
  read and of its upsert: the level it returns and the table afterwards. The error of the
  read is dropped, so a failed read counts as level 0; the result of the upsert is not
  looked at, and a failed upsert leaves the table as it was.
\<close>

definition trackResistance ::
  "(jsstring \<Rightarrow> jsstring) \<Rightarrow> db_call \<Rightarrow> db_call \<Rightarrow> resistance_table \<Rightarrow> string \<Rightarrow> string
     \<Rightarrow> jsstring \<Rightarrow> int \<times> resistance_table" where
  "trackResistance toLowerCase read upsert db userId interventionId userResponse =
     (let score = resistanceScore toLowerCase userResponse;
          currentLevel = select_single read db userId;
          newLevel = (case currentLevel of None \<Rightarrow> 0 | Some r \<Rightarrow> level r)
                       + (if score > 2 then 1 else 0)
      in (newLevel,
          case upsert of
            Fails \<Rightarrow> db
          | Succeeds \<Rightarrow>
              db(userId \<mapsto> \<lparr>level = min newLevel 5, intervention_id = interventionId\<rparr>)))"

text \<open>
  A sequence of calls (outcome of the read, outcome of the upsert, user id, intervention
  id, reply), one after the other.
\<close>

fun track_replies ::
  "(jsstring \<Rightarrow> jsstring) \<Rightarrow> resistance_table
     \<Rightarrow> (db_call \<times> db_call \<times> string \<times> string \<times> jsstring) list \<Rightarrow> resistance_table" where
  "track_replies toLowerCase db [] = db"
| "track_replies toLowerCase db ((rd, wr, u, i, r) # calls) =
     track_replies toLowerCase (snd (trackResistance toLowerCase rd wr db u i r)) calls"

text \<open>
  The count the specification words describe, for comparison with \<open>resistanceScore\<close>:
  every occurrence of every hedge word in the reply, position by position.
\<close>

fun occurrences :: "'a list \<Rightarrow> 'a list \<Rightarrow> nat" where
  "occurrences [] m = 0"
| "occurrences (c # cs) m = (if prefix m (c # cs) then 1 else 0) + occurrences cs m"

definition hedge_word_occurrences :: "(jsstring \<Rightarrow> jsstring) \<Rightarrow> jsstring \<Rightarrow> nat" where
  "hedge_word_occurrences toLowerCase userResponse =
     sum_list (map (occurrences (toLowerCase userResponse)) resistanceMarkers)"

section \<open>The engine: pattern detectors\<close>

text \<open>
  Each detector is modelled on the rows its queries return (\<open>None\<close> for a \<open>null\<close>
  result) and on the clock \<open>now\<close>, in milliseconds. A detector returns \<open>None\<close> for
  \<open>null\<close>. In a result, \<open>estimated_cost\<close> is \<open>None\<close> when the arithmetic gives
  \<open>NaN\<close> (an operand was \<open>undefined\<close>). The evidence object keeps some of
  its numeric fields (an \<open>undefined\<close> one is written \<open>NaN\<close>); the string fields and the
  insight text are left out.
\<close>

type_synonym evidence = "(string \<times> jsnum) list"

record detector_result =
  confidence :: jsnum
  dr_severity :: severity
  estimated_cost :: "real option"
  dr_evidence :: "evidence option"

definition ms_per_day :: int where
  "ms_per_day = 1000 * 60 * 60 * 24"

record business_metrics =
  current_mrr :: real
  avg_transaction_value :: real
  product_count :: real
  revenue_history :: "real list"

text \<open>
  A competitor row; a \<open>null\<close> product count is 0 (both are falsy, and \<open>null > x\<close>
  compares as \<open>0 > x\<close>).
\<close>

record competitor =
  monthly_recurring_revenue :: real
  comp_product_count :: real

subsection \<open>ProcrastinationDetector\<close>

record task_row =
  task_requested :: string
  created_at :: int

record task_delays =
  hasDelays :: bool
  delayScore :: real
  delayDays :: "int option"
  avgDelay :: "real option"

definition no_delays :: task_delays where
  "no_delays = \<lparr>hasDelays = False, delayScore = 0, delayDays = None, avgDelay = None\<rparr>"

definition analyzeTaskDelays :: "int \<Rightarrow> task_row list option \<Rightarrow> task_delays" where
  "analyzeTaskDelays now tasks =
     (case tasks of
        None \<Rightarrow> no_delays
      | Some ts \<Rightarrow>
          if ts = [] then no_delays
          else
            (let delays = map (\<lambda>t. (now - created_at t) div ms_per_day) ts;
                 totalDelayDays = foldl (\<lambda>sum d. sum + d) 0 delays;
                 avg = real_of_int totalDelayDays / real (length delays)
             in \<lparr>hasDelays = True,
                 delayScore = min (avg / 30) 1,
                 delayDays = Some totalDelayDays,
                 avgDelay = Some (js_round avg)\<rparr>))"

definition futureWords :: "jsstring list" where
  "futureWords =
     map str
       [''will'', ''going to'', ''plan to'', ''tomorrow'', ''next week'', ''soon'', ''later'',
        ''eventually'']"

definition actionWords :: "jsstring list" where
  "actionWords =
     map str [''did'', ''done'', ''completed'', ''shipped'', ''launched'', ''finished'']"

definition count_words :: "jsstring list \<Rightarrow> jsstring \<Rightarrow> nat" where
  "count_words ws txt = length (filter (js_includes txt) ws)"

record language_patterns =
  futureFocused :: bool
  futureScore :: real

text \<open>A message is its \<open>user_input\<close>, \<open>None\<close> when that is \<open>null\<close>.\<close>

definition analyzeLanguagePatterns ::
  "(jsstring \<Rightarrow> jsstring) \<Rightarrow> jsstring option list option \<Rightarrow> language_patterns" where
  "analyzeLanguagePatterns toLowerCase messages =
     (case messages of
        None \<Rightarrow> \<lparr>futureFocused = False, futureScore = 0\<rparr>
      | Some ms \<Rightarrow>
          if ms = [] then \<lparr>futureFocused = False, futureScore = 0\<rparr>
          else
            (let texts = map (\<lambda>m. toLowerCase (case m of None \<Rightarrow> [] | Some s \<Rightarrow> s)) ms;
                 futureCount = sum_list (map (count_words futureWords) texts);
                 actionCount = sum_list (map (count_words actionWords) texts);
                 futureRatio = real futureCount /
                   real (if futureCount + actionCount = 0 then 1 else futureCount + actionCount)
             in \<lparr>futureFocused = (futureRatio > 0.6), futureScore = futureRatio\<rparr>))"

definition ProcrastinationDetector_detect ::
  "(jsstring \<Rightarrow> jsstring) \<Rightarrow> int \<Rightarrow> business_metrics \<Rightarrow> task_row list option
     \<Rightarrow> jsstring option list option \<Rightarrow> detector_result option" where
  "ProcrastinationDetector_detect toLowerCase now businessMetrics tasks messages =
     (let taskDelays = analyzeTaskDelays now tasks;
          languagePatterns = analyzeLanguagePatterns toLowerCase messages
      in if \<not> hasDelays taskDelays \<and> \<not> futureFocused languagePatterns then None
         else
           (let conf = (delayScore taskDelays + futureScore languagePatterns) / 2;
                estimatedCost =
                  (case delayDays taskDelays of
                     None \<Rightarrow> None
                   | Some d \<Rightarrow> Some (real_of_int d * (current_mrr businessMetrics / 30)))
            in Some \<lparr>confidence = Fin conf,
                     dr_severity = (if conf > 0.8 then Critical else if conf > 0.6 then High else Medium),
                     estimated_cost = estimatedCost,
                     dr_evidence = Some
                       [(''total_delay_days'',
                           case delayDays taskDelays of None \<Rightarrow> NaN | Some d \<Rightarrow> Fin (real_of_int d)),
                        (''avg_task_delay'',
                           case avgDelay taskDelays of None \<Rightarrow> NaN | Some a \<Rightarrow> Fin a)]\<rparr>))"

subsection \<open>PricingCowardiceDetector\<close>

record price_comparison =
  underpriced :: bool
  pc_confidence :: jsnum
  pc_gapPercent :: jsnum
  monthlyLoss :: real

fun js_round_num :: "jsnum \<Rightarrow> jsnum" where
  "js_round_num (Fin x) = Fin (js_round x)"
| "js_round_num PInf = PInf"
| "js_round_num NInf = NInf"
| "js_round_num NaN = NaN"

definition not_underpriced :: price_comparison where
  "not_underpriced = \<lparr>underpriced = False, pc_confidence = NaN, pc_gapPercent = NaN, monthlyLoss = 0\<rparr>"

text \<open>
  \<open>comparePricing\<close>. When it answers \<open>{ underpriced: false }\<close> early the other
  fields are not read by the caller. The market average can be 0 only with negative
  revenues; the division is then JavaScript's.
\<close>

definition comparePricing :: "business_metrics \<Rightarrow> competitor list \<Rightarrow> price_comparison" where
  "comparePricing userMetrics competitors =
     (if competitors = [] then not_underpriced
      else
        (let userAvgPrice = current_mrr userMetrics /
               (if product_count userMetrics = 0 then 1 else product_count userMetrics);
             competitorPrices =
               map (\<lambda>c. monthly_recurring_revenue c / comp_product_count c)
                 (filter (\<lambda>c. monthly_recurring_revenue c \<noteq> 0 \<and> comp_product_count c \<noteq> 0) competitors)
         in if competitorPrices = [] then not_underpriced
            else
              (let marketAvg = foldl (\<lambda>sum p. sum + p) 0 competitorPrices / real (length competitorPrices);
                   gapPercent = js_scale (js_div (marketAvg - userAvgPrice) marketAvg) 100
               in \<lparr>underpriced = js_gt gapPercent 20,
                   pc_confidence = js_min (js_scale gapPercent (1 / 100)) 0.95,
                   pc_gapPercent = js_round_num gapPercent,
                   monthlyLoss = (marketAvg - userAvgPrice) *
                     (if product_count userMetrics = 0 then 1 else product_count userMetrics)\<rparr>)))"

definition PricingCowardiceDetector_detect ::
  "business_metrics \<Rightarrow> competitor list \<Rightarrow> detector_result option" where
  "PricingCowardiceDetector_detect businessMetrics competitors =
     (if current_mrr businessMetrics = 0 \<and> avg_transaction_value businessMetrics = 0 then None
      else
        (let priceComparison = comparePricing businessMetrics competitors
         in if \<not> underpriced priceComparison then None
            else Some \<lparr>confidence = pc_confidence priceComparison,
                       dr_severity = (if js_gt (pc_gapPercent priceComparison) 50 then Critical else High),
                       estimated_cost = Some (monthlyLoss priceComparison),
                       dr_evidence = Some [(''gap_percent'', pc_gapPercent priceComparison)]\<rparr>))"

subsection \<open>ExecutionParalysisDetector\<close>

record typed_task =
  task_type :: "jsstring option"
  was_used :: bool

definition planning_words :: "jsstring list" where
  "planning_words = map str [''planning'', ''research'', ''analysis'', ''strategy'']"

definition execution_words :: "jsstring list" where
  "execution_words = map str [''launch'', ''ship'', ''build'', ''create'', ''implement'']"

definition type_matches :: "(jsstring \<Rightarrow> jsstring) \<Rightarrow> jsstring list \<Rightarrow> typed_task \<Rightarrow> bool" where
  "type_matches toLowerCase ws t =
     (case task_type t of
        None \<Rightarrow> False
      | Some s \<Rightarrow> list_ex (\<lambda>w. js_includes (toLowerCase s) w) ws)"

record planning_ratio =
  ratio :: real
  plannedCount :: nat
  executedCount :: nat
  pr_confidence :: real

definition calculatePlanningToExecutionRatio ::
  "(jsstring \<Rightarrow> jsstring) \<Rightarrow> typed_task list option \<Rightarrow> planning_ratio" where
  "calculatePlanningToExecutionRatio toLowerCase tasks =
     (let ts = (case tasks of None \<Rightarrow> [] | Some rows \<Rightarrow> rows);
          planningTasks = filter (type_matches toLowerCase planning_words) ts;
          executionTasks =
            filter (\<lambda>t. was_used t \<and> type_matches toLowerCase execution_words t) ts;
          r = real (length planningTasks) /
                real (if length executionTasks = 0 then 1 else length executionTasks)
      in \<lparr>ratio = js_round (r * 10) / 10,
          plannedCount = length planningTasks,
          executedCount = length executionTasks,
          pr_confidence = min (real (length planningTasks) / 10) 0.9\<rparr>)"

record blockers =
  hasBlockers :: bool
  bl_confidence :: real
  daysSinceExecution :: "int option"

text \<open>A blocker row is its \<open>detected_at\<close>; the rows come newest first.\<close>

definition identifyBlockers :: "int \<Rightarrow> int list option \<Rightarrow> blockers" where
  "identifyBlockers now rows =
     (case rows of
        None \<Rightarrow> \<lparr>hasBlockers = False, bl_confidence = 0, daysSinceExecution = None\<rparr>
      | Some ps \<Rightarrow>
          (case ps of
             [] \<Rightarrow> \<lparr>hasBlockers = False, bl_confidence = 0, daysSinceExecution = None\<rparr>
           | latestBlocker # _ \<Rightarrow>
               \<lparr>hasBlockers = True,
                bl_confidence = min (real (length ps) / 20) 0.9,
                daysSinceExecution = Some ((now - latestBlocker) div ms_per_day)\<rparr>))"

definition ExecutionParalysisDetector_detect ::
  "(jsstring \<Rightarrow> jsstring) \<Rightarrow> int \<Rightarrow> business_metrics \<Rightarrow> competitor list
     \<Rightarrow> typed_task list option \<Rightarrow> int list option \<Rightarrow> detector_result option" where
  "ExecutionParalysisDetector_detect toLowerCase now businessMetrics competitors tasks rows =
     (let planningRatio = calculatePlanningToExecutionRatio toLowerCase tasks;
          bl = identifyBlockers now rows
      in if ratio planningRatio < 3 \<and> \<not> hasBlockers bl then None
         else
           Some \<lparr>confidence = Fin ((pr_confidence planningRatio + bl_confidence bl) / 2),
                 dr_severity =
                   (case daysSinceExecution bl of
                      None \<Rightarrow> High
                    | Some d \<Rightarrow> if d > 30 then Critical else High),
                 estimated_cost =
                   (case daysSinceExecution bl of
                      None \<Rightarrow> None
                    | Some d \<Rightarrow> Some (real_of_int d * (current_mrr businessMetrics / 30))),
                 dr_evidence = Some
                   [(''planning_to_execution_ratio'', Fin (ratio planningRatio)),
                    (''planned_but_not_started'', Fin (real (plannedCount planningRatio))),
                    (''competitor_launches'',
                       Fin (real (length (filter
                         (\<lambda>c. comp_product_count c > product_count businessMetrics) competitors))))]\<rparr>)"

subsection \<open>CompetitiveDelusionDetector\<close>

text \<open>
  \<open>indexOf\<close> on a list that holds the value: the position of its first occurrence.
\<close>

definition indexOf :: "real list \<Rightarrow> real \<Rightarrow> nat" where
  "indexOf xs x = length (takeWhile (\<lambda>y. y \<noteq> x) xs)"

record ranking =
  rank :: nat
  percentile :: real

definition calculateRanking :: "business_metrics \<Rightarrow> competitor list \<Rightarrow> ranking" where
  "calculateRanking userMetrics competitors =
     (let allRevenues = rev (sort (map monthly_recurring_revenue competitors @ [current_mrr userMetrics]));
          rk = indexOf allRevenues (current_mrr userMetrics) + 1
      in \<lparr>rank = rk, percentile = js_round (real rk / real (length allRevenues) * 100)\<rparr>)"

definition CompetitiveDelusionDetector_detect ::
  "business_metrics \<Rightarrow> competitor list \<Rightarrow> detector_result option" where
  "CompetitiveDelusionDetector_detect businessMetrics competitors =
     (if length competitors < 5 then None
      else
        (let rnk = calculateRanking businessMetrics competitors
         in if percentile rnk > 50 then None
            else
              (let topPerformers = take 3 competitors;
                   avgTopRevenue =
                     foldl (\<lambda>sum c. sum + monthly_recurring_revenue c) 0 topPerformers / 3;
                   revenueGap = avgTopRevenue - current_mrr businessMetrics
               in Some \<lparr>confidence = Fin 0.85,
                        dr_severity = (if percentile rnk < 20 then Critical else High),
                        estimated_cost = Some revenueGap,
                        dr_evidence = Some
                          [(''your_rank'', Fin (real (rank rnk))),
                           (''total_competitors'', Fin (real (length competitors))),
                           (''percentile'', Fin (percentile rnk)),
                           (''revenue_gap'', Fin (js_round revenueGap)),
                           (''top_performer_revenue'', Fin (js_round avgTopRevenue))]\<rparr>)))"

subsection \<open>RevenueStagnationDetector\<close>

record stagnation =
  isStagnant :: bool
  st_confidence :: real
  monthsStagnant :: nat
  opportunityCost :: real

text \<open>\<open>analyzeStagnation\<close>, called on a history of at least three points.\<close>

definition analyzeStagnation :: "real list \<Rightarrow> stagnation" where
  "analyzeStagnation revenueHistory =
     (let currentRevenue = hd revenueHistory;
          n = real (length revenueHistory);
          avgRevenue = foldl (\<lambda>sum r. sum + r) 0 revenueHistory / n;
          variance = foldl (\<lambda>sum r. sum + (r - avgRevenue) ^ 2) 0 revenueHistory / n;
          stdDev = sqrt variance;
          volatility = js_div stdDev avgRevenue;
          stagnantMonths =
            length (filter (\<lambda>r. js_lt (js_div \<bar>r - avgRevenue\<bar> avgRevenue) 0.1) revenueHistory);
          stagnant = (js_lt volatility 0.15 \<and> real stagnantMonths \<ge> n * 0.7);
          months = (if stagnant then stagnantMonths else 0);
          potentialRevenue = currentRevenue * 1.1 ^ months
      in \<lparr>isStagnant = stagnant,
          st_confidence = (if stagnant then min (real months / 12) 0.9 else 0),
          monthsStagnant = months,
          opportunityCost = (potentialRevenue - currentRevenue) * real months\<rparr>)"

definition RevenueStagnationDetector_detect :: "business_metrics \<Rightarrow> detector_result option" where
  "RevenueStagnationDetector_detect businessMetrics =
     (let revenueHistory = revenue_history businessMetrics
      in if length revenueHistory < 3 then None
         else
           (let st = analyzeStagnation revenueHistory
            in if \<not> isStagnant st then None
               else Some \<lparr>confidence = Fin (st_confidence st),
                          dr_severity = (if monthsStagnant st > 6 then Critical else High),
                          estimated_cost = Some (opportunityCost st),
                          dr_evidence = Some
                            [(''months_stagnant'', Fin (real (monthsStagnant st))),
                             (''current_revenue'', Fin (js_round (hd revenueHistory)))]\<rparr>))"

section \<open>The engine: analysis of a user\<close>

record pattern =
  ptype :: string
  p_severity :: severity
  p_confidence :: jsnum
  p_evidence :: evidence
  cost :: real

text \<open>
  The test of \<open>detectDataDrivenPatterns\<close> on one detector's result, and the pattern
  pushed when it passes; \<open>result.estimated_cost || 0\<close> turns \<open>NaN\<close> into 0.
\<close>

definition include_result :: "string \<Rightarrow> detector_result option \<Rightarrow> pattern option" where
  "include_result ty result =
     (case result of
        None \<Rightarrow> None
      | Some r \<Rightarrow>
          (case dr_evidence r of
             None \<Rightarrow> None
           | Some ev \<Rightarrow>
               if js_gt (confidence r) 0.7
               then Some \<lparr>ptype = ty, p_severity = dr_severity r, p_confidence = confidence r,
                          p_evidence = ev,
                          cost = (case estimated_cost r of None \<Rightarrow> 0 | Some c \<Rightarrow> c)\<rparr>
               else None))"

text \<open>
  \<open>patterns.sort((a, b) => b.cost - a.cost)\<close>: a stable sort, by cost, highest first.
\<close>

definition detectDataDrivenPatterns :: "(string \<times> detector_result option) list \<Rightarrow> pattern list" where
  "detectDataDrivenPatterns detectionResults =
     sort_key (\<lambda>p. - cost p) (List.map_filter (\<lambda>(ty, result). include_result ty result) detectionResults)"

text \<open>
  The \<open>data\<close> object handed to the intervention generator, by the two properties
  \<open>BehavioralMLEngine.generateIntervention\<close> reads from it: \<open>mlPredictions?.suggestions\<close>
  and \<open>interventionHistory\<close> (\<open>None\<close> when the object has no such property; indexing
  it then throws a \<open>TypeError\<close>). The generated text is kept as the template and the
  pattern that fills it.
\<close>

record intervention_data =
  ml_suggestion :: "string option"
  interventionHistory :: "(string \<Rightarrow> real list) option"

datatype ml_text = Base_intervention pattern | Suggestion_and_base string pattern

definition ml_generateIntervention :: "pattern \<Rightarrow> intervention_data \<Rightarrow> real \<Rightarrow> exn + ml_text" where
  "ml_generateIntervention p data random =
     (let mlSuggestion = ml_suggestion data
      in case interventionHistory data of
           None \<Rightarrow> Inl TypeError
         | Some history \<Rightarrow>
             (case mlSuggestion of
                None \<Rightarrow> Inr (Base_intervention p)
              | Some s \<Rightarrow>
                  if s \<noteq> [] \<and> random > 0.5 then Inr (Suggestion_and_base s p)
                  else Inr (Base_intervention p)))"

text \<open>
  The intervention object. \<open>addUncomfortableSpecifics\<close> wraps the generated text in a
  sentence built from the same primary pattern; the field \<open>iv_intervention\<close> keeps the
  generated text (\<open>None\<close> for the fixed sentence of the neutral intervention).
\<close>

record engine_intervention =
  iv_intervention :: "ml_text option"
  iv_pattern :: "string option"
  iv_severity :: "severity option"
  iv_confidence :: "jsnum option"
  iv_estimated_cost :: "real option"
  iv_tracking_id :: string
  iv_ml_enhanced :: bool

definition generateUncomfortableIntervention ::
  "pattern list \<Rightarrow> intervention_data \<Rightarrow> string \<Rightarrow> real \<Rightarrow> exn + engine_intervention" where
  "generateUncomfortableIntervention patterns data uuid random =
     (case patterns of
        [] \<Rightarrow> Inr \<lparr>iv_intervention = None, iv_pattern = None, iv_severity = None,
                   iv_confidence = None, iv_estimated_cost = None, iv_tracking_id = uuid,
                   iv_ml_enhanced = False\<rparr>
      | primaryPattern # _ \<Rightarrow>
          (case ml_generateIntervention primaryPattern data random of
             Inl e \<Rightarrow> Inl e
           | Inr mlIntervention \<Rightarrow>
               Inr \<lparr>iv_intervention = Some mlIntervention,
                    iv_pattern = Some (ptype primaryPattern),
                    iv_severity = Some (p_severity primaryPattern),
                    iv_confidence = Some (p_confidence primaryPattern),
                    iv_estimated_cost = Some (cost primaryPattern),
                    iv_tracking_id = uuid,
                    iv_ml_enhanced = True\<rparr>))"

record prediction_row =
  outcome_verified :: bool
  pred_confidence :: real

record behavioral_profile =
  total_signals :: nat
  prediction_accuracy :: real

definition calculatePredictionAccuracy :: "prediction_row list \<Rightarrow> real" where
  "calculatePredictionAccuracy predictions =
     (if predictions = [] then 0
      else real (length (filter (\<lambda>p. outcome_verified p \<and> pred_confidence p > 0.7) predictions))
             / real (length predictions))"

fun js_add :: "real \<Rightarrow> jsnum \<Rightarrow> jsnum" where
  "js_add a (Fin x) = Fin (a + x)"
| "js_add a PInf = PInf"
| "js_add a NInf = NInf"
| "js_add a NaN = NaN"

definition calculateRealConfidence :: "pattern list \<Rightarrow> behavioral_profile \<Rightarrow> jsnum" where
  "calculateRealConfidence patterns behavioralHistory =
     (let dataQuality = min (real (total_signals behavioralHistory) / 10) 1;
          predictionAccuracy =
            (if prediction_accuracy behavioralHistory = 0 then 0.5
             else prediction_accuracy behavioralHistory);
          patternClarity = (case patterns of [] \<Rightarrow> Fin 0.5 | p # _ \<Rightarrow> p_confidence p)
      in js_add (dataQuality * 0.3 + predictionAccuracy * 0.5) (js_scale patternClarity 0.2))"

text \<open>
  What the queries of one analysis return. \<open>breaker_rejects\<close> says that a call made
  through the circuit breaker is rejected (its 3000 ms timeout, an open circuit, or a
  thrown error); a query that comes back with an error has \<open>null\<close> data instead.
  Row counts stand for rows whose content is not read.
\<close>

record business_context =
  ctx_mrr :: "real option"
  ctx_product_count :: "real option"

record engine_db =
  breaker_rejects :: bool
  cached_profile :: "behavioral_profile option"
  user_pattern_rows :: "nat option"
  verified_predictions :: "prediction_row list option"
  business_ctx :: "business_context option"
  revenue_rows :: "real list option"
  saas_mrr :: "real option"
  user_ctx_found :: bool
  competitor_rows :: "competitor list option"
  pending_tasks :: "task_row list option"
  feedback_messages :: "jsstring option list option"
  typed_tasks :: "typed_task list option"
  blocker_rows :: "int list option"

definition getUserBehavioralProfile :: "engine_db \<Rightarrow> behavioral_profile" where
  "getUserBehavioralProfile db =
     (case cached_profile db of
        Some cached \<Rightarrow> cached
      | None \<Rightarrow>
          \<lparr>total_signals =
             (case user_pattern_rows db of None \<Rightarrow> 0 | Some n \<Rightarrow> n)
             + (case verified_predictions db of None \<Rightarrow> 0 | Some ps \<Rightarrow> length ps),
           prediction_accuracy =
             calculatePredictionAccuracy
               (case verified_predictions db of None \<Rightarrow> [] | Some ps \<Rightarrow> ps)\<rparr>)"

definition getBusinessTruth :: "engine_db \<Rightarrow> business_metrics" where
  "getBusinessTruth db =
     (let revenues = (case revenue_rows db of None \<Rightarrow> [] | Some rs \<Rightarrow> rs);
          avgRevenue =
            (if length revenues > 0
             then foldl (\<lambda>sum r. sum + r) 0 revenues / real (length revenues) else 0)
      in \<lparr>current_mrr =
             or_default (case business_ctx db of None \<Rightarrow> None | Some c \<Rightarrow> ctx_mrr c)
               (or_default (saas_mrr db) 0),
          avg_transaction_value = avgRevenue,
          product_count =
            or_default (case business_ctx db of None \<Rightarrow> None | Some c \<Rightarrow> ctx_product_count c) 0,
          revenue_history = take 12 revenues\<rparr>)"

definition getCompetitiveReality :: "engine_db \<Rightarrow> competitor list" where
  "getCompetitiveReality db =
     (if \<not> user_ctx_found db then []
      else (case competitor_rows db of None \<Rightarrow> [] | Some cs \<Rightarrow> cs))"

definition run_detectors ::
  "(jsstring \<Rightarrow> jsstring) \<Rightarrow> int \<Rightarrow> business_metrics \<Rightarrow> competitor list \<Rightarrow> engine_db
     \<Rightarrow> (string \<times> detector_result option) list" where
  "run_detectors toLowerCase now businessMetrics competitors db =
     [(''procrastination'',
         ProcrastinationDetector_detect toLowerCase now businessMetrics (pending_tasks db)
           (feedback_messages db)),
      (''pricing_cowardice'', PricingCowardiceDetector_detect businessMetrics competitors),
      (''execution_paralysis'',
         ExecutionParalysisDetector_detect toLowerCase now businessMetrics competitors
           (typed_tasks db) (blocker_rows db)),
      (''competitive_delusion'', CompetitiveDelusionDetector_detect businessMetrics competitors),
      (''revenue_stagnation'', RevenueStagnationDetector_detect businessMetrics)]"

record analysis =
  an_patterns :: "pattern list"
  an_intervention :: engine_intervention
  an_confidence :: jsnum
  an_should_intervene :: bool

text \<open>
  \<open>analyzeUser\<close>. The object it hands to \<open>generateUncomfortableIntervention\<close> is
  \<open>{ behavioralHistory, businessMetrics, competitorAnalysis, breakthroughData }\<close>: it has
  neither \<open>mlPredictions\<close> nor \<open>interventionHistory\<close>. Every error is logged and
  thrown again. The machine-learning predictions catch their own errors, and the delivery
  record written at the end (its failure is caught) does not enter the result.
\<close>

definition analyzeUser ::
  "(jsstring \<Rightarrow> jsstring) \<Rightarrow> int \<Rightarrow> engine_db \<Rightarrow> string \<Rightarrow> real \<Rightarrow> exn + analysis" where
  "analyzeUser toLowerCase now db uuid random =
     (if breaker_rejects db then Inl Breaker_rejected
      else
        (let behavioralHistory = getUserBehavioralProfile db;
             businessMetrics = getBusinessTruth db;
             competitors = getCompetitiveReality db;
             patterns =
               detectDataDrivenPatterns (run_detectors toLowerCase now businessMetrics competitors db)
         in case generateUncomfortableIntervention patterns
                   \<lparr>ml_suggestion = None, interventionHistory = None\<rparr> uuid random of
              Inl e \<Rightarrow> Inl e
            | Inr intervention \<Rightarrow>
                Inr \<lparr>an_patterns = patterns,
                     an_intervention = intervention,
                     an_confidence = calculateRealConfidence patterns behavioralHistory,
                     an_should_intervene =
                       list_ex (\<lambda>p. p_severity p = Critical \<or> cost p > 1000) patterns\<rparr>))"

section \<open>pattern-queries-optimized.js\<close>

text \<open>
  A call of a stored procedure: it throws, comes back with an error, or comes back with
  data (\<open>None\<close> for \<open>null\<close>).
\<close>

datatype 'a rpc = Rpc_throws | Rpc_error | Rpc_data "'a option"

record brutal_pattern =
  pattern_type :: string
  bp_confidence :: jsnum
  bp_severity :: severity
  bp_evidence :: evidence
  bp_estimated_cost :: real

record procrastination_metrics =
  total_delay_days :: "real option"
  oldest_task_age :: "real option"

text \<open>
  \<open>getDailyBurnRate\<close>, on the revenue its query found (\<open>None\<close> when the query
  throws, fails or finds no row): \<open>(mrr || 0) / 30 || 100\<close>.
\<close>

definition getDailyBurnRate :: "real option \<Rightarrow> real" where
  "getDailyBurnRate mrr = (let d = or_default mrr 0 / 30 in if d = 0 then 100 else d)"

definition detectProcrastinationBrutally ::
  "procrastination_metrics rpc \<Rightarrow> real option \<Rightarrow> brutal_pattern option" where
  "detectProcrastinationBrutally response mrr =
     (case response of
        Rpc_throws \<Rightarrow> None
      | Rpc_error \<Rightarrow> None
      | Rpc_data data \<Rightarrow>
          (let metrics = (case data of
                            None \<Rightarrow> \<lparr>total_delay_days = None, oldest_task_age = None\<rparr>
                          | Some m \<Rightarrow> m);
               dailyBurn = getDailyBurnRate mrr;
               costOfBullshit = or_default (total_delay_days metrics) 0 * dailyBurn
           in Some \<lparr>pattern_type = ''procrastination'',
                    bp_confidence = Fin (min (or_default (total_delay_days metrics) 0 / 30) 0.95),
                    bp_severity =
                      (case total_delay_days metrics of
                         None \<Rightarrow> High
                       | Some d \<Rightarrow> if d > 60 then Critical else High),
                    bp_evidence =
                      [(''total_delay_days'', Fin (or_default (total_delay_days metrics) 0)),
                       (''oldest_task_age_days'', Fin (or_default (oldest_task_age metrics) 0)),
                       (''daily_burn_rate'', Fin (js_round dailyBurn))],
                    bp_estimated_cost = js_round costOfBullshit\<rparr>))"

record pricing_data =
  market_average :: real
  your_price :: real
  customer_count :: real

definition detectPricingCowardiceBrutally :: "pricing_data rpc \<Rightarrow> brutal_pattern option" where
  "detectPricingCowardiceBrutally response =
     (case response of
        Rpc_throws \<Rightarrow> None
      | Rpc_error \<Rightarrow> None
      | Rpc_data None \<Rightarrow> None
      | Rpc_data (Some data) \<Rightarrow>
          (let gapPercent =
                 js_scale (js_div (market_average data - your_price data) (market_average data)) 100;
               monthlyLoss = (market_average data - your_price data) * customer_count data
           in Some \<lparr>pattern_type = ''pricing_cowardice'',
                    bp_confidence = js_min (js_scale gapPercent (1 / 50)) 0.95,
                    bp_severity = (if js_gt gapPercent 50 then Critical else High),
                    bp_evidence =
                      [(''your_price'', Fin (js_round (your_price data))),
                       (''market_average'', Fin (js_round (market_average data))),
                       (''gap_percent'', js_round_num gapPercent),
                       (''customer_count'', Fin (customer_count data))],
                    bp_estimated_cost = js_round monthlyLoss\<rparr>))"

record execution_metrics =
  planning_count :: "real option"
  shipped_count :: "real option"
  days_since_ship :: "real option"
  opportunity_cost :: "real option"

text \<open>
  With no data the metrics object is empty: \<open>undefined / 1\<close> is \<open>NaN\<close>, the test
  \<open>NaN < 3\<close> fails, and a pattern with confidence \<open>NaN\<close> is returned.
\<close>

definition detectExecutionParalysisBrutally :: "execution_metrics rpc \<Rightarrow> brutal_pattern option" where
  "detectExecutionParalysisBrutally response =
     (case response of
        Rpc_throws \<Rightarrow> None
      | Rpc_error \<Rightarrow> None
      | Rpc_data data \<Rightarrow>
          (let metrics = (case data of
                            None \<Rightarrow> \<lparr>planning_count = None, shipped_count = None,
                                      days_since_ship = None, opportunity_cost = None\<rparr>
                          | Some m \<Rightarrow> m);
               planToShipRatio =
                 (case planning_count metrics of
                    None \<Rightarrow> NaN
                  | Some p \<Rightarrow> Fin (p / or_default (shipped_count metrics) 1))
           in if js_lt planToShipRatio 3 then None
              else Some \<lparr>pattern_type = ''execution_paralysis'',
                         bp_confidence = js_min (js_scale planToShipRatio (1 / 10)) 0.95,
                         bp_severity =
                           (case days_since_ship metrics of
                              None \<Rightarrow> High
                            | Some d \<Rightarrow> if d > 60 then Critical else High),
                         bp_evidence =
                           [(''planned_but_not_started'', Fin (or_default (planning_count metrics) 0)),
                            (''projects_shipped'', Fin (or_default (shipped_count metrics) 0)),
                            (''planning_ratio'', js_scale (js_round_num (js_scale planToShipRatio 10)) (1 / 10)),
                            (''days_blocked'', Fin (or_default (days_since_ship metrics) 0))],
                         bp_estimated_cost = js_round (or_default (opportunity_cost metrics) 0)\<rparr>))"

record detection =
  det_patterns :: "brutal_pattern list"
  total_estimated_cost :: real
  det_cached :: bool
  det_error :: bool

text \<open>The outcome of a promise under \<open>Promise.allSettled\<close>.\<close>

datatype 'a settled = Fulfilled 'a | Rejected

definition keep_settled :: "brutal_pattern option settled \<Rightarrow> brutal_pattern option" where
  "keep_settled p =
     (case p of
        Rejected \<Rightarrow> None
      | Fulfilled None \<Rightarrow> None
      | Fulfilled (Some v) \<Rightarrow> if js_gt (bp_confidence v) 0.7 then Some v else None)"

definition filter_and_sort :: "brutal_pattern option settled list \<Rightarrow> brutal_pattern list" where
  "filter_and_sort settled =
     sort_key (\<lambda>p. - bp_estimated_cost p) (List.map_filter keep_settled settled)"

text \<open>
  The inputs of one detection: the row of \<open>pattern_cache\<close> with its time (\<open>None\<close> on a
  miss or a failed read), the deployment (\<open>on_vercel\<close>), what the connection pooler's
  queue gives there (that module is not among the sources, so its outcome is an input),
  and the answers of the three stored procedures and of the revenue query.
\<close>

record detection_inputs =
  cache_row :: "(detection \<times> int) option"
  on_vercel :: bool
  pooled :: "exn + detection"
  procrastination_rpc :: "procrastination_metrics rpc"
  burn_mrr :: "real option"
  pricing_rpc :: "pricing_data rpc"
  execution_rpc :: "execution_metrics rpc"

definition cacheExpiry :: "bool \<Rightarrow> int" where
  "cacheExpiry vercel = (if vercel then 30000 else 5000)"

text \<open>
  \<open>detectAllPatternsBrutally\<close>: the detection and the cache row afterwards. The three
  detectors catch their own errors, so the promises are fulfilled; the \<open>catch\<close> branch
  is reached only from the pooler.
\<close>

definition detectAllPatternsBrutally ::
  "int \<Rightarrow> detection_inputs \<Rightarrow> detection \<times> (detection \<times> int) option" where
  "detectAllPatternsBrutally now inp =
     (case (case cache_row inp of
              Some (data, timestamp) \<Rightarrow>
                if now - timestamp < cacheExpiry (on_vercel inp) then Some data else None
            | None \<Rightarrow> None) of
        Some data \<Rightarrow> (data, cache_row inp)
      | None \<Rightarrow>
          if on_vercel inp
          then (case pooled inp of
                  Inr r \<Rightarrow> (r, cache_row inp)
                | Inl e \<Rightarrow>
                    (case cache_row inp of
                       Some (data, timestamp) \<Rightarrow> (data, cache_row inp)
                     | None \<Rightarrow>
                         (\<lparr>det_patterns = [], total_estimated_cost = 0, det_cached = False,
                           det_error = True\<rparr>, cache_row inp)))
          else
            (let settled =
                   [Fulfilled (detectProcrastinationBrutally (procrastination_rpc inp) (burn_mrr inp)),
                    Fulfilled (detectPricingCowardiceBrutally (pricing_rpc inp)),
                    Fulfilled (detectExecutionParalysisBrutally (execution_rpc inp))];
                 detectedPatterns = filter_and_sort settled;
                 result = \<lparr>det_patterns = detectedPatterns,
                           total_estimated_cost =
                             foldl (\<lambda>sum p. sum + bp_estimated_cost p) 0 detectedPatterns,
                           det_cached = False, det_error = False\<rparr>
             in (result, Some (result, now))))"

section \<open>api/analyze.js\<close>

text \<open>
  \<open>getUserResistanceLevel\<close>: \<open>data?.pattern_data?.level || 0\<close> on the data of the
  same read, so 0 when there is no row or the read failed (and 0 on a throw).
\<close>

definition getUserResistanceLevel :: "db_call \<Rightarrow> resistance_table \<Rightarrow> string \<Rightarrow> int" where
  "getUserResistanceLevel read db uid =
     (case select_single read db uid of None \<Rightarrow> 0 | Some r \<Rightarrow> level r)"

text \<open>
  What the handler's datastore holds and answers beside the detection: the resistance
  rows, the outcome of the read of the user's row, and the number of competitor rows
  that \<open>getComparisonData\<close> finds.
\<close>

record handler_store =
  resistance_rows :: resistance_table
  resistance_read :: db_call
  competitor_count :: "nat option"

record analyze_body =
  ab_patterns :: "brutal_pattern list"
  ab_intervention :: "evidence intervention option"
  ab_confidence :: jsnum
  should_intervene :: bool
  ab_cached :: bool

record analyze_response =
  ar_code :: nat
  ar_success :: bool
  ar_body :: "analyze_body option"

text \<open>\<open>patterns.patterns?.[0]?.confidence || 0\<close>.\<close>

definition first_confidence :: "brutal_pattern list \<Rightarrow> jsnum" where
  "first_confidence ps =
     (case ps of
        [] \<Rightarrow> Fin 0
      | p # _ \<Rightarrow> (case bp_confidence p of NaN \<Rightarrow> Fin 0 | c \<Rightarrow> c))"

text \<open>
  \<open>handleAnalyze\<close>. \<open>initialized\<close> says that the module's services were created (the
  query optimizer is \<open>undefined\<close> otherwise, and calling it throws). The patterns of the
  optimizer carry \<open>pattern_type\<close> and no \<open>type\<close> property, so the intervention
  generator receives a pattern whose \<open>type\<close> is \<open>undefined\<close>; the user data it
  receives is \<open>{ userId, currentMessage }\<close>. An error thrown inside the \<open>try\<close> block
  is answered with 500.
\<close>

definition handleAnalyze ::
  "bool \<Rightarrow> analyze_request \<Rightarrow> int \<Rightarrow> detection_inputs \<Rightarrow> handler_store
     \<Rightarrow> analyze_response \<times> call list" where
  "handleAnalyze initialized req now inp store =
     (if falsy (body_userId req) \<or> falsy (body_message req)
      then (\<lparr>ar_code = 400, ar_success = False, ar_body = None\<rparr>, [])
      else if \<not> initialized
      then (\<lparr>ar_code = 500, ar_success = False, ar_body = None\<rparr>, [])
      else
        (let uid = (case body_userId req of None \<Rightarrow> [] | Some u \<Rightarrow> u);
             patterns = fst (detectAllPatternsBrutally now inp);
             criticalPattern = find (\<lambda>p. bp_severity p = Critical) (det_patterns patterns);
             (generated, calls) =
               (case criticalPattern of
                  None \<Rightarrow> (Inr None, [])
                | Some cp \<Rightarrow>
                    (let resistanceLevel =
                           getUserResistanceLevel (resistance_read store) (resistance_rows store) uid
                     in (map_sum id Some
                           (generateIntervention (competitor_count store) (Some None)
                              (Some (bp_evidence cp))
                              (Some \<lparr>ud_userId = uid, has_businessMetrics = False\<rparr>)
                              (Some resistanceLevel)),
                         [Call_getUserResistanceLevel, Call_generateIntervention])))
         in case generated of
              Inl e \<Rightarrow>
                (\<lparr>ar_code = 500, ar_success = False, ar_body = None\<rparr>,
                 Call_detectAllPatternsBrutally # calls)
            | Inr intervention \<Rightarrow>
                (\<lparr>ar_code = 200, ar_success = True,
                  ar_body = Some \<lparr>ab_patterns = det_patterns patterns,
                                  ab_intervention = intervention,
                                  ab_confidence = first_confidence (det_patterns patterns),
                                  should_intervene = (intervention \<noteq> None),
                                  ab_cached = det_cached patterns\<rparr>\<rparr>,
                 Call_detectAllPatternsBrutally # calls)))"

section \<open>The engine's HTTP routes\<close>

subsection \<open>Analysis\<close>

record engine_response =
  er_code :: nat
  er_success :: bool
  er_result :: "analysis option"

text \<open>
  \<open>POST /api/analyze\<close> of the engine. \<open>rate\<close> is the request counter that
  \<open>patternCache\<close> holds for each user id.
\<close>

definition analyze_route ::
  "(jsstring \<Rightarrow> jsstring) \<Rightarrow> (string \<Rightarrow> nat) \<Rightarrow> analyze_request \<Rightarrow> int \<Rightarrow> engine_db \<Rightarrow> string
     \<Rightarrow> real \<Rightarrow> engine_response \<times> call list \<times> (string \<Rightarrow> nat)" where
  "analyze_route toLowerCase rate req now db uuid random =
     (if falsy (body_userId req) \<or> falsy (body_message req)
      then (\<lparr>er_code = 400, er_success = False, er_result = None\<rparr>, [], rate)
      else
        (let uid = (case body_userId req of None \<Rightarrow> [] | Some u \<Rightarrow> u);
             requests = rate uid
         in if requests > 30
            then (\<lparr>er_code = 429, er_success = False, er_result = None\<rparr>, [], rate)
            else
              (let rate' = rate(uid := requests + 1)
               in case analyzeUser toLowerCase now db uuid random of
                    Inl e \<Rightarrow>
                      (\<lparr>er_code = 500, er_success = False, er_result = None\<rparr>,
                       [Call_analyzeUser], rate')
                  | Inr result \<Rightarrow>
                      (\<lparr>er_code = 200, er_success = True, er_result = Some result\<rparr>,
                       [Call_analyzeUser], rate'))))"

subsection \<open>Outcome tracking\<close>

record outcome =
  action_taken :: bool
  revenue_impact :: "real option"
  pattern_broken :: bool
  breakthrough :: bool

definition calculateEffectiveness :: "outcome \<Rightarrow> real" where
  "calculateEffectiveness oc =
     (let score = 0;
          score = (if action_taken oc then score + 0.3 else score);
          score = (if (case revenue_impact oc of None \<Rightarrow> False | Some r \<Rightarrow> r > 0)
                   then score + 0.3 else score);
          score = (if pattern_broken oc then score + 0.2 else score);
          score = (if breakthrough oc then score + 0.2 else score)
      in min score 1.0)"

record track_request =
  tracking_id :: "string option"
  req_outcome :: "outcome option"

record track_response =
  track_status :: nat
  track_success :: bool
  effectiveness_recorded :: "real option"

text \<open>
  \<open>POST /api/track-outcome\<close>. \<open>update_error\<close> says whether the datastore update
  came back with an error, which the route throws and answers with 500.
\<close>

definition track_outcome_route :: "track_request \<Rightarrow> bool \<Rightarrow> track_response" where
  "track_outcome_route req update_error =
     (case (tracking_id req, req_outcome req) of
        (Some tid, Some oc) \<Rightarrow>
          if tid = [] then \<lparr>track_status = 400, track_success = False, effectiveness_recorded = None\<rparr>
          else
            (let effectiveness = calculateEffectiveness oc
             in if update_error
                then \<lparr>track_status = 500, track_success = False, effectiveness_recorded = None\<rparr>
                else \<lparr>track_status = 200, track_success = True,
                      effectiveness_recorded = Some effectiveness\<rparr>)
      | _ \<Rightarrow> \<lparr>track_status = 400, track_success = False, effectiveness_recorded = None\<rparr>)"

subsection \<open>Health check\<close>

text \<open>
  The probe reads one row of \<open>user_patterns\<close>: it comes back without an error, with an
  error, or the call throws.
\<close>

datatype probe = Probe_ok | Probe_error | Probe_throws

definition checkDatabaseHealth :: "probe \<Rightarrow> bool" where
  "checkDatabaseHealth p = (case p of Probe_ok \<Rightarrow> True | Probe_error \<Rightarrow> False | Probe_throws \<Rightarrow> False)"

record health_response =
  health_code :: nat
  health_status :: string
  health_database :: bool

text \<open>\<open>GET /health\<close> of the engine: \<open>res.json\<close> without \<open>res.status\<close> answers 200.\<close>

definition health_route :: "probe \<Rightarrow> health_response" where
  "health_route p =
     (let dbHealth = checkDatabaseHealth p
      in \<lparr>health_code = 200,
          health_status = (if dbHealth then ''healthy'' else ''degraded''),
          health_database = dbHealth\<rparr>)"

text \<open>
  \<open>GET /health\<close> of the production server (index.js): \<open>getSystemHealth\<close> looks at the
  cache's error count, the heap in use and the four components; it never calls the
  datastore.
\<close>

record system_checks =
  cache_errors :: nat
  heap_used :: nat
  intelligence_engine :: bool
  brutal_interventions :: bool
  query_optimizer :: bool
  ab_tester :: bool

definition getSystemHealth :: "system_checks \<Rightarrow> bool" where
  "getSystemHealth c =
     (let memory_healthy = heap_used c < 400 * 1024 * 1024;
          cache_healthy = cache_errors c < 10;
          components = [intelligence_engine c, brutal_interventions c, query_optimizer c, ab_tester c]
      in memory_healthy \<and> cache_healthy \<and> list_all (\<lambda>b. b) components)"

definition production_health_route :: "system_checks \<Rightarrow> nat" where
  "production_health_route c = (if getSystemHealth c then 200 else 503)"

section \<open>A user without data\<close>

text \<open>
  The inputs named by the end-to-end properties: a query result without rows is \<open>null\<close>
  or the empty list, a single-row query finds nothing, and nothing is cached.
\<close>

definition no_rows :: "'a list option \<Rightarrow> bool" where
  "no_rows r = (r = None \<or> r = Some [])"

definition empty_tables :: "engine_db \<Rightarrow> bool" where
  "empty_tables db =
     (cached_profile db = None \<and> (user_pattern_rows db = None \<or> user_pattern_rows db = Some 0)
      \<and> no_rows (verified_predictions db) \<and> business_ctx db = None \<and> no_rows (revenue_rows db)
      \<and> saas_mrr db = None \<and> user_ctx_found db = False \<and> no_rows (competitor_rows db)
      \<and> no_rows (pending_tasks db) \<and> no_rows (feedback_messages db)
      \<and> no_rows (typed_tasks db) \<and> no_rows (blocker_rows db))"

definition empty_procedures :: "detection_inputs \<Rightarrow> bool" where
  "empty_procedures inp =
     (cache_row inp = None \<and> on_vercel inp = False \<and> procrastination_rpc inp = Rpc_data None
      \<and> burn_mrr inp = None \<and> pricing_rpc inp = Rpc_data None
      \<and> execution_rpc inp = Rpc_data None)"

text \<open>A stored procedure that fails: the call throws or comes back with an error.\<close>

definition rpc_fails :: "'a rpc \<Rightarrow> bool" where
  "rpc_fails r = (case r of Rpc_throws \<Rightarrow> True | Rpc_error \<Rightarrow> True | Rpc_data d \<Rightarrow> False)"

text \<open>The two inputs of a user for whom every query comes back empty.\<close>

definition blank_db :: engine_db where
  "blank_db =
     \<lparr>breaker_rejects = False, cached_profile = None, user_pattern_rows = Some 0,
      verified_predictions = Some [], business_ctx = None, revenue_rows = Some [],
      saas_mrr = None, user_ctx_found = False, competitor_rows = Some [],
      pending_tasks = Some [], feedback_messages = Some [], typed_tasks = Some [],
      blocker_rows = Some []\<rparr>"

text \<open>A datastore without resistance rows and without competitors, whose reads succeed.\<close>

definition blank_store :: handler_store where
  "blank_store =
     \<lparr>resistance_rows = Map.empty, resistance_read = Succeeds, competitor_count = Some 0\<rparr>"

definition blank_inputs :: detection_inputs where
  "blank_inputs =
     \<lparr>cache_row = None, on_vercel = False, pooled = Inl Not_initialized,
      procrastination_rpc = Rpc_data None, burn_mrr = None, pricing_rpc = Rpc_data None,
      execution_rpc = Rpc_data None\<rparr>"

section \<open>Sample inputs\<close>

text \<open>
  A user whose oldest tasks are 84 days late and who charges 60 where the market charges
  100, as the three stored procedures report it.
\<close>

definition delayed_and_underpriced :: detection_inputs where
  "delayed_and_underpriced =
     blank_inputs
       \<lparr>procrastination_rpc := Rpc_data (Some \<lparr>total_delay_days = Some 84, oldest_task_age = Some 84\<rparr>),
        burn_mrr := Some 300,
        pricing_rpc := Rpc_data (Some \<lparr>market_average = 100, your_price = 60, customer_count = 100\<rparr>)\<rparr>"

text \<open>
  A user whose procrastination procedure fails while the pricing procedure reports a
  price of 20 against a market average of 100.
\<close>

definition one_failed_procedure :: detection_inputs where
  "one_failed_procedure =
     blank_inputs
       \<lparr>procrastination_rpc := Rpc_error,
        pricing_rpc := Rpc_data (Some \<lparr>market_average = 100, your_price = 20, customer_count = 10\<rparr>)\<rparr>"

text \<open>
  A user earning 5000 a month among five competitors earning 100 each.
\<close>

definition top_earner_db :: engine_db where
  "top_earner_db =
     blank_db
       \<lparr>business_ctx := Some \<lparr>ctx_mrr = Some 5000, ctx_product_count = Some 1\<rparr>,
        user_ctx_found := True,
        competitor_rows := Some
          [\<lparr>monthly_recurring_revenue = 100, comp_product_count = 1\<rparr>,
           \<lparr>monthly_recurring_revenue = 100, comp_product_count = 1\<rparr>,
           \<lparr>monthly_recurring_revenue = 100, comp_product_count = 1\<rparr>,
           \<lparr>monthly_recurring_revenue = 100, comp_product_count = 1\<rparr>,
           \<lparr>monthly_recurring_revenue = 100, comp_product_count = 1\<rparr>]\<rparr>"

text \<open>The property of a detection that the cache preserves: every pattern passed the filter.\<close>

definition above_threshold :: "detection \<Rightarrow> bool" where
  "above_threshold d = list_all (\<lambda>p. js_gt (bp_confidence p) 0.7) (det_patterns d)"

text \<open>
  A user with one product at 75 a month where the only competitor earns 100 with one
  product: a price gap of 25 percent.
\<close>

definition quarter_below_market :: business_metrics where
  "quarter_below_market =
     \<lparr>current_mrr = 75, avg_transaction_value = 0, product_count = 1, revenue_history = []\<rparr>"

text \<open>
  A profile as \<open>getUserBehavioralProfile\<close> computes it has a prediction accuracy
  between 0 and 1; the profile cache holds such profiles only.
\<close>

definition valid_profile :: "behavioral_profile \<Rightarrow> bool" where
  "valid_profile p = (0 \<le> prediction_accuracy p \<and> prediction_accuracy p \<le> 1)"

text \<open>The rows of a query result, none for \<open>null\<close>.\<close>

definition task_rows :: "task_row list option \<Rightarrow> task_row list" where
  "task_rows tasks = (case tasks of None \<Rightarrow> [] | Some ts \<Rightarrow> ts)"

text \<open>The results of three detectors, two of which fired.\<close>

definition two_detector_results :: "(string \<times> detector_result option) list" where
  "two_detector_results =
     [(''competitive_delusion'',
         Some \<lparr>confidence = Fin 0.85, dr_severity = Critical, estimated_cost = Some 500,
               dr_evidence = Some []\<rparr>),
      (''procrastination'',
         Some \<lparr>confidence = Fin 0.9, dr_severity = Critical, estimated_cost = Some 900,
               dr_evidence = Some []\<rparr>),
      (''revenue_stagnation'', None)]"

section \<open>Properties\<close>

subsection \<open>Resistance tracking\<close>

lemma foldl_add_sum_list:
  "foldl (\<lambda>(score::nat) m. score + f m) a xs = a + sum_list (map f xs)"
  by (induction xs arbitrary: a) auto

lemma sum_list_indicator:
  "sum_list (map (\<lambda>m. if P m then 1 else 0) xs) = length (filter P xs)"
  by (induction xs) auto

lemma js_includes_occurrences:
  "m \<noteq> [] \<Longrightarrow> js_includes s m \<Longrightarrow> Suc 0 \<le> occurrences s m"
  by (induction s) auto

text \<open>The score is the number of markers that the lower-cased reply contains.\<close>

lemma resistanceScore_count:
  "resistanceScore lc r = length (filter (js_includes (lc r)) resistanceMarkers)"
  by (simp add: resistanceScore_def foldl_add_sum_list sum_list_indicator)

text \<open>
  Each marker adds at most one to the score however often it occurs, so the score never
  exceeds the number of occurrences; the converse fails (see the counterexample below).
\<close>

lemma resistanceScore_le_occurrences:
  "resistanceScore lc r \<le> hedge_word_occurrences lc r"
proof -
  have "\<forall>m \<in> set resistanceMarkers. m \<noteq> []"
    by (simp add: resistanceMarkers_def str_def)
  then have "sum_list (map (\<lambda>m. if js_includes (lc r) m then 1 else 0) resistanceMarkers)
      \<le> sum_list (map (occurrences (lc r)) resistanceMarkers)"
    by (intro sum_list_mono) (auto intro: js_includes_occurrences)
  then show ?thesis
    by (simp add: resistanceScore_def hedge_word_occurrences_def foldl_add_sum_list)
qed

lemma trackResistance_stored:
  "stored_level (snd (trackResistance lc rd Succeeds db u i r)) u =
     min ((case rd of Fails \<Rightarrow> 0 | Succeeds \<Rightarrow> stored_level db u)
          + (if resistanceScore lc r > 2 then 1 else 0)) 5"
  by (cases rd) (simp_all add: trackResistance_def select_single_def stored_level_def Let_def)

lemma trackResistance_failed_upsert:
  "snd (trackResistance lc rd Fails db u i r) = db"
  by (simp add: trackResistance_def Let_def)

lemma trackResistance_range:
  assumes "0 \<le> stored_level db u" and "stored_level db u \<le> 5"
  shows "0 \<le> stored_level (snd (trackResistance lc rd wr db u i r)) u
       \<and> stored_level (snd (trackResistance lc rd wr db u i r)) u \<le> 5"
proof (cases wr)
  case Fails
  with assms show ?thesis by (simp add: trackResistance_failed_upsert)
next
  case Succeeds
  with assms show ?thesis by (cases rd) (simp_all add: trackResistance_stored)
qed

lemma trackResistance_other_user:
  "v \<noteq> u \<Longrightarrow> stored_level (snd (trackResistance lc rd wr db u i r)) v = stored_level db v"
  by (cases wr) (simp_all add: trackResistance_def stored_level_def Let_def)

text \<open>
  Claim C2, as the code has it. For a user whose stored level is an integer from 0 to 5
  (no row counts as 0), a call of \<open>trackResistance\<close> whose read and upsert succeed
  stores the old level plus one, capped at 5, when more than two of the eleven markers
  are contained in the lower-cased reply (each marker counted once), and the old level
  otherwise; so the stored level does not decrease. Whatever the outcomes of the read
  and of the upsert, the stored level stays between 0 and 5: a failed upsert leaves the
  table as it was, and after a failed read, which counts as level 0, a successful upsert
  stores 1 when more than two markers are contained and 0 otherwise. The levels of the
  other users are not touched.
\<close>

theorem trackResistance_level:
  assumes "0 \<le> stored_level db u" and "stored_level db u \<le> 5"
  shows "stored_level (snd (trackResistance lc Succeeds Succeeds db u i r)) u =
           (if resistanceScore lc r > 2 then min (stored_level db u + 1) 5 else stored_level db u)
         \<and> stored_level db u \<le> stored_level (snd (trackResistance lc Succeeds Succeeds db u i r)) u
         \<and> resistanceScore lc r = length (filter (js_includes (lc r)) resistanceMarkers)
         \<and> 0 \<le> stored_level (snd (trackResistance lc rd wr db u i r)) u
         \<and> stored_level (snd (trackResistance lc rd wr db u i r)) u \<le> 5
         \<and> snd (trackResistance lc rd Fails db u i r) = db
         \<and> stored_level (snd (trackResistance lc Fails Succeeds db u i r)) u =
             (if resistanceScore lc r > 2 then 1 else 0)
         \<and> (v \<noteq> u \<longrightarrow> stored_level (snd (trackResistance lc rd wr db u i r)) v = stored_level db v)"
proof -
  have c1: "stored_level (snd (trackResistance lc Succeeds Succeeds db u i r)) u =
           (if resistanceScore lc r > 2 then min (stored_level db u + 1) 5 else stored_level db u)"
    using assms by (simp add: trackResistance_stored)
  from c1 assms
  have c2: "stored_level db u \<le> stored_level (snd (trackResistance lc Succeeds Succeeds db u i r)) u"
    by simp
  have c3: "resistanceScore lc r = length (filter (js_includes (lc r)) resistanceMarkers)"
    by (rule resistanceScore_count)
  from assms have c45: "0 \<le> stored_level (snd (trackResistance lc rd wr db u i r)) u
       \<and> stored_level (snd (trackResistance lc rd wr db u i r)) u \<le> 5"
    by (rule trackResistance_range)
  have c6: "snd (trackResistance lc rd Fails db u i r) = db"
    by (rule trackResistance_failed_upsert)
  have c7: "stored_level (snd (trackResistance lc Fails Succeeds db u i r)) u =
             (if resistanceScore lc r > 2 then 1 else 0)"
    by (simp add: trackResistance_stored)
  have c8: "v \<noteq> u \<longrightarrow> stored_level (snd (trackResistance lc rd wr db u i r)) v = stored_level db v"
    by (simp add: trackResistance_other_user)
  from c1 c2 c3 c45 c6 c7 c8 show ?thesis by (intro conjI) simp_all
qed

lemma sample_scores:
  "resistanceScore lower_ascii (str ''Yes, BUT however it is unfair'') = 3"
  "resistanceScore lower_ascii (str ''ok, I will'') = 0"
  "resistanceScore lower_ascii (str ''but but but'') = 1"
  by (simp_all add: resistanceScore_def resistanceMarkers_def str_def lower_ascii_def
      lower_unit_def)

theorem trackResistance_level_witness:
  "stored_level (snd (trackResistance lower_ascii Succeeds Succeeds Map.empty ''u1'' ''i1''
      (str ''Yes, BUT however it is unfair''))) ''u1'' = 1
   \<and> stored_level (snd (trackResistance lower_ascii Succeeds Succeeds Map.empty ''u1'' ''i1''
      (str ''ok, I will''))) ''u1'' = 0
   \<and> snd (trackResistance lower_ascii Succeeds Fails Map.empty ''u1'' ''i1''
      (str ''Yes, BUT however it is unfair'')) = Map.empty
   \<and> stored_level (snd (trackResistance lower_ascii Succeeds Succeeds Map.empty ''u1'' ''i1''
      (str ''Yes, BUT however it is unfair''))) ''u2'' = 0"
proof -
  have s: "0 \<le> stored_level Map.empty ''u1''" "stored_level Map.empty ''u1'' \<le> 5"
    by (simp_all add: stored_level_def)
  note a = trackResistance_level [OF s, where lc = lower_ascii and i = "''i1''"
      and r = "str ''Yes, BUT however it is unfair''" and rd = Succeeds and wr = Succeeds
      and v = "''u2''"]
  have d: "''u2'' \<noteq> ''u1''" by simp
  note b = trackResistance_level [OF s, where lc = lower_ascii and i = "''i1''"
      and r = "str ''ok, I will''"]
  from a [THEN conjunct1] have w1: "stored_level (snd (trackResistance lower_ascii Succeeds Succeeds
      Map.empty ''u1'' ''i1'' (str ''Yes, BUT however it is unfair''))) ''u1'' = 1"
    by (simp add: sample_scores stored_level_def)
  from b [THEN conjunct1] have w2: "stored_level (snd (trackResistance lower_ascii Succeeds Succeeds
      Map.empty ''u1'' ''i1'' (str ''ok, I will''))) ''u1'' = 0"
    by (simp add: sample_scores stored_level_def)
  note w3 = a [THEN conjunct2, THEN conjunct2, THEN conjunct2, THEN conjunct2, THEN conjunct2,
      THEN conjunct1]
  from a [THEN conjunct2, THEN conjunct2, THEN conjunct2, THEN conjunct2, THEN conjunct2,
      THEN conjunct2, THEN conjunct2, THEN mp, OF d]
  have w4: "stored_level (snd (trackResistance lower_ascii Succeeds Succeeds Map.empty ''u1'' ''i1''
      (str ''Yes, BUT however it is unfair''))) ''u2'' = 0"
    by (simp add: stored_level_def)
  from w1 w2 w3 w4 show ?thesis by (intro conjI)
qed

text \<open>
  The reply \<open>but but but\<close> holds three occurrences of a hedge word, yet only one marker
  of the list is contained in it: the score is 1 and the level of a new user stays 0.
  And a call whose read fails takes a stored level of 4 for 0 and stores 0.
\<close>

theorem trackResistance_occurrences_counterexample:
  "hedge_word_occurrences lower_ascii (str ''but but but'') = 3
   \<and> resistanceScore lower_ascii (str ''but but but'') = 1
   \<and> stored_level Map.empty ''u1'' = 0
   \<and> stored_level (snd (trackResistance lower_ascii Succeeds Succeeds Map.empty ''u1'' ''i1''
        (str ''but but but''))) ''u1'' = 0
   \<and> stored_level [''u1'' \<mapsto> \<lparr>level = 4, intervention_id = ''i0''\<rparr>] ''u1'' = 4
   \<and> stored_level (snd (trackResistance lower_ascii Fails Succeeds
        [''u1'' \<mapsto> \<lparr>level = 4, intervention_id = ''i0''\<rparr>] ''u1'' ''i1''
        (str ''ok, I will''))) ''u1'' = 0"
proof -
  have o: "hedge_word_occurrences lower_ascii (str ''but but but'') = 3"
    by (simp add: hedge_word_occurrences_def resistanceMarkers_def str_def lower_ascii_def
        lower_unit_def)
  have a: "stored_level (snd (trackResistance lower_ascii Succeeds Succeeds Map.empty ''u1'' ''i1''
        (str ''but but but''))) ''u1'' = 0"
    unfolding trackResistance_stored by (simp add: sample_scores stored_level_def)
  have b: "stored_level (snd (trackResistance lower_ascii Fails Succeeds
        [''u1'' \<mapsto> \<lparr>level = 4, intervention_id = ''i0''\<rparr>] ''u1'' ''i1''
        (str ''ok, I will''))) ''u1'' = 0"
    unfolding trackResistance_stored by (simp add: sample_scores)
  have c: "stored_level Map.empty ''u1'' = 0
      \<and> stored_level [''u1'' \<mapsto> \<lparr>level = 4, intervention_id = ''i0''\<rparr>] ''u1'' = 4"
    by (simp add: stored_level_def)
  from o sample_scores(3) a b c show ?thesis by (intro conjI) simp_all
qed

text \<open>
  The range is an invariant: starting from an empty table, any sequence of calls,
  whatever their reads and upserts do, leaves every stored level between 0 and 5.
\<close>

lemma trackResistance_keeps_range:
  assumes "\<forall>v. 0 \<le> stored_level db v \<and> stored_level db v \<le> 5"
  shows "\<forall>v. 0 \<le> stored_level (snd (trackResistance lc rd wr db u i r)) v
           \<and> stored_level (snd (trackResistance lc rd wr db u i r)) v \<le> 5"
proof
  fix v
  show "0 \<le> stored_level (snd (trackResistance lc rd wr db u i r)) v
           \<and> stored_level (snd (trackResistance lc rd wr db u i r)) v \<le> 5"
  proof (cases "v = u")
    case True
    with assms show ?thesis by (simp add: trackResistance_range)
  next
    case False
    with assms show ?thesis by (simp add: trackResistance_other_user)
  qed
qed

lemma track_replies_range:
  assumes "\<forall>v. 0 \<le> stored_level db v \<and> stored_level db v \<le> 5"
  shows "\<forall>v. 0 \<le> stored_level (track_replies lc db calls) v
           \<and> stored_level (track_replies lc db calls) v \<le> 5"
  using assms
proof (induction calls arbitrary: db)
  case Nil
  then show ?case by simp
next
  case (Cons c calls)
  obtain rd wr u i r where c: "c = (rd, wr, u, i, r)" by (cases c)
  let ?db = "snd (trackResistance lc rd wr db u i r)"
  from Cons.prems have "\<forall>v. 0 \<le> stored_level ?db v \<and> stored_level ?db v \<le> 5"
    by (rule trackResistance_keeps_range)
  then have "\<forall>v. 0 \<le> stored_level (track_replies lc ?db calls) v
           \<and> stored_level (track_replies lc ?db calls) v \<le> 5"
    by (rule Cons.IH)
  then show ?case
    unfolding c by simp
qed

lemma track_replies_from_empty:
  "0 \<le> stored_level (track_replies lc Map.empty calls) v
   \<and> stored_level (track_replies lc Map.empty calls) v \<le> 5"
proof -
  have "\<forall>v. 0 \<le> stored_level Map.empty v \<and> stored_level Map.empty v \<le> 5"
    by (simp add: stored_level_def)
  then show ?thesis using track_replies_range by blast
qed

subsection \<open>Template selection\<close>




text \<open>
  A pattern without a \<open>type\<close> property, which is what the handlers pass, finds no
  template at any level.
\<close>

lemma generateIntervention_no_type:
  "generateIntervention comps (Some None) (Some ev) (Some ud) lvl = Inr (Default_brutal ev)"
  by (simp add: generateIntervention_def interventionGenerators_def)


lemma handleAnalyze_intervention:
  assumes "uid \<noteq> []" and "msg \<noteq> []"
  shows "\<exists>body. ar_body (fst (handleAnalyze True \<lparr>body_userId = Some uid, body_message = Some msg\<rparr>
              now inp store)) = Some body
          \<and> map_option Inr (ab_intervention body) =
              map_option
                (\<lambda>cp. generateIntervention (competitor_count store) (Some None)
                         (Some (bp_evidence cp))
                         (Some \<lparr>ud_userId = uid, has_businessMetrics = False\<rparr>)
                         (Some (getUserResistanceLevel (resistance_read store)
                                  (resistance_rows store) uid)))
                (find (\<lambda>p. bp_severity p = Critical) (ab_patterns body))"
  using assms
  by (simp add: handleAnalyze_def falsy_def Let_def generateIntervention_no_type
      split: prod.splits option.splits)




subsection \<open>Outcome tracking\<close>

lemma calculateEffectiveness_sum:
  "calculateEffectiveness oc =
     min ((if action_taken oc then 0.3 else 0)
          + (if (case revenue_impact oc of None \<Rightarrow> False | Some r \<Rightarrow> r > 0) then 0.3 else 0)
          + (if pattern_broken oc then 0.2 else 0)
          + (if breakthrough oc then 0.2 else 0)) 1"
  by (simp add: calculateEffectiveness_def)

text \<open>A request with a tracking id and an outcome, and an update that succeeds.\<close>

lemma track_outcome_route_recorded:
  "track_outcome_route \<lparr>tracking_id = Some (c # cs), req_outcome = Some oc\<rparr> False
     = \<lparr>track_status = 200, track_success = True,
        effectiveness_recorded = Some (calculateEffectiveness oc)\<rparr>"
  by (simp add: track_outcome_route_def)

text \<open>
  Claim C5. For every outcome the effectiveness score is the sum of the weights 0.3,
  0.3, 0.2 and 0.2 of the flags that hold (\<open>action_taken\<close>, a revenue impact above 0,
  \<open>pattern_broken\<close>, \<open>breakthrough\<close>), capped at 1, and the track-outcome route
  answers a request that carries a tracking id and that outcome with 200 and with that
  score when the update succeeds. With \<open>action_taken\<close>, a revenue impact of 500,
  \<open>pattern_broken\<close> and \<open>breakthrough\<close> the score recorded is 1.
\<close>

theorem effectiveness_all_flags:
  "calculateEffectiveness oc =
       min ((if action_taken oc then 0.3 else 0)
            + (if (case revenue_impact oc of None \<Rightarrow> False | Some r \<Rightarrow> r > 0) then 0.3 else 0)
            + (if pattern_broken oc then 0.2 else 0)
            + (if breakthrough oc then 0.2 else 0)) 1
   \<and> track_outcome_route \<lparr>tracking_id = Some (c # cs), req_outcome = Some oc\<rparr> False
     = \<lparr>track_status = 200, track_success = True,
        effectiveness_recorded = Some (calculateEffectiveness oc)\<rparr>
   \<and> calculateEffectiveness
       \<lparr>action_taken = True, revenue_impact = Some 500, pattern_broken = True, breakthrough = True\<rparr> = 1
   \<and> track_outcome_route
       \<lparr>tracking_id = Some (c # cs),
        req_outcome = Some \<lparr>action_taken = True, revenue_impact = Some 500,
                             pattern_broken = True, breakthrough = True\<rparr>\<rparr> False
     = \<lparr>track_status = 200, track_success = True, effectiveness_recorded = Some 1\<rparr>"
proof -
  have one: "calculateEffectiveness
       \<lparr>action_taken = True, revenue_impact = Some 500, pattern_broken = True, breakthrough = True\<rparr> = 1"
    by (simp add: calculateEffectiveness_def)
  from calculateEffectiveness_sum track_outcome_route_recorded one show ?thesis
    by (simp only: simp_thms)
qed

theorem effectiveness_all_flags_witness:
  "track_outcome_route
       \<lparr>tracking_id = Some ''t1'',
        req_outcome = Some \<lparr>action_taken = True, revenue_impact = Some 500,
                             pattern_broken = True, breakthrough = True\<rparr>\<rparr> False
     = \<lparr>track_status = 200, track_success = True, effectiveness_recorded = Some 1\<rparr>
   \<and> track_outcome_route
       \<lparr>tracking_id = Some ''t1'',
        req_outcome = Some \<lparr>action_taken = True, revenue_impact = None,
                             pattern_broken = False, breakthrough = True\<rparr>\<rparr> False
     = \<lparr>track_status = 200, track_success = True, effectiveness_recorded = Some (1 / 2)\<rparr>
   \<and> track_outcome_route
       \<lparr>tracking_id = Some ''t1'',
        req_outcome = Some \<lparr>action_taken = False, revenue_impact = Some 0,
                             pattern_broken = False, breakthrough = False\<rparr>\<rparr> False
     = \<lparr>track_status = 200, track_success = True, effectiveness_recorded = Some 0\<rparr>"
  using effectiveness_all_flags [where oc = "\<lparr>action_taken = True, revenue_impact = None,
        pattern_broken = False, breakthrough = True\<rparr>" and c = "CHR ''t''" and cs = "''1''"]
    effectiveness_all_flags [where oc = "\<lparr>action_taken = False, revenue_impact = Some 0,
        pattern_broken = False, breakthrough = False\<rparr>" and c = "CHR ''t''" and cs = "''1''"]
  by simp

subsection \<open>Health check\<close>

text \<open>
  Claim C9, as the code has it. The engine's health route answers 200 whatever the
  probe gives; a failed probe shows in the body only (status \<open>degraded\<close>, database
  false). The production server's health route answers 503 exactly when the heap, the
  cache error count or a component is unhealthy, and does not depend on the datastore.
\<close>

theorem health_route_always_200:
  "health_code (health_route p) = 200
   \<and> health_database (health_route p) = (p = Probe_ok)
   \<and> health_status (health_route p) = (if p = Probe_ok then ''healthy'' else ''degraded'')
   \<and> production_health_route c =
       (if heap_used c < 400 * 1024 * 1024 \<and> cache_errors c < 10 \<and> intelligence_engine c
           \<and> brutal_interventions c \<and> query_optimizer c \<and> ab_tester c
        then 200 else 503)"
  by (cases p) (auto simp: health_route_def checkDatabaseHealth_def production_health_route_def
      getSystemHealth_def)

theorem health_route_witness:
  "health_code (health_route Probe_throws) = 200
   \<and> health_status (health_route Probe_throws) = ''degraded''
   \<and> health_database (health_route Probe_throws) = False"
  using health_route_always_200 [of Probe_throws]
  by simp

theorem health_probe_failure_counterexample:
  "health_code (health_route Probe_error) = 200"
  by (simp add: health_route_def Let_def)

subsection \<open>Analyze requests\<close>

lemma empty_business:
  "business_ctx db = None \<Longrightarrow> saas_mrr db = None \<Longrightarrow> no_rows (revenue_rows db) \<Longrightarrow>
   getBusinessTruth db =
     \<lparr>current_mrr = 0, avg_transaction_value = 0, product_count = 0, revenue_history = []\<rparr>"
  by (auto simp: getBusinessTruth_def no_rows_def or_default_def)

lemma empty_task_delays: "no_rows tasks \<Longrightarrow> analyzeTaskDelays now tasks = no_delays"
  by (auto simp: no_rows_def analyzeTaskDelays_def)

lemma empty_language:
  "no_rows messages \<Longrightarrow>
   analyzeLanguagePatterns lc messages = \<lparr>futureFocused = False, futureScore = 0\<rparr>"
  by (auto simp: no_rows_def analyzeLanguagePatterns_def)

lemma empty_planning:
  "no_rows tasks \<Longrightarrow>
   calculatePlanningToExecutionRatio lc tasks =
     \<lparr>ratio = 0, plannedCount = 0, executedCount = 0, pr_confidence = 0\<rparr>"
  by (auto simp: no_rows_def calculatePlanningToExecutionRatio_def js_round_def)

lemma empty_blockers:
  "no_rows rows \<Longrightarrow>
   identifyBlockers now rows =
     \<lparr>hasBlockers = False, bl_confidence = 0, daysSinceExecution = None\<rparr>"
  by (auto simp: no_rows_def identifyBlockers_def)

lemma empty_detectors:
  assumes "empty_tables db"
  shows "run_detectors lc now (getBusinessTruth db) (getCompetitiveReality db) db =
     [(''procrastination'', None), (''pricing_cowardice'', None), (''execution_paralysis'', None),
      (''competitive_delusion'', None), (''revenue_stagnation'', None)]"
proof -
  from assms have bm: "getBusinessTruth db =
     \<lparr>current_mrr = 0, avg_transaction_value = 0, product_count = 0, revenue_history = []\<rparr>"
    by (simp add: empty_tables_def empty_business)
  from assms have comp: "getCompetitiveReality db = []"
    by (simp add: empty_tables_def getCompetitiveReality_def)
  from assms have p: "ProcrastinationDetector_detect lc now (getBusinessTruth db) (pending_tasks db)
      (feedback_messages db) = None"
    by (simp add: empty_tables_def ProcrastinationDetector_detect_def empty_task_delays
        empty_language no_delays_def)
  have c: "PricingCowardiceDetector_detect (getBusinessTruth db) [] = None"
    by (simp add: bm PricingCowardiceDetector_detect_def)
  from assms have e: "ExecutionParalysisDetector_detect lc now (getBusinessTruth db) []
      (typed_tasks db) (blocker_rows db) = None"
    by (simp add: empty_tables_def ExecutionParalysisDetector_detect_def empty_planning
        empty_blockers)
  have d: "CompetitiveDelusionDetector_detect (getBusinessTruth db) [] = None"
    by (simp add: CompetitiveDelusionDetector_detect_def)
  have s: "RevenueStagnationDetector_detect (getBusinessTruth db) = None"
    by (simp add: bm RevenueStagnationDetector_detect_def)
  show ?thesis
    by (simp add: run_detectors_def comp p c e d s)
qed

lemma empty_analyzeUser:
  assumes "empty_tables db" and "\<not> breaker_rejects db"
  shows "\<exists>a. analyzeUser lc now db uuid random = Inr a \<and> an_patterns a = []
           \<and> \<not> an_should_intervene a"
  using assms
  by (simp add: analyzeUser_def empty_detectors detectDataDrivenPatterns_def
      List.map_filter_simps include_result_def generateUncomfortableIntervention_def)

lemma empty_detection:
  assumes "empty_procedures inp"
  shows "fst (detectAllPatternsBrutally now inp) =
     \<lparr>det_patterns = [], total_estimated_cost = 0, det_cached = False, det_error = False\<rparr>"
  using assms
  by (simp add: empty_procedures_def detectAllPatternsBrutally_def
      detectProcrastinationBrutally_def detectPricingCowardiceBrutally_def
      detectExecutionParalysisBrutally_def filter_and_sort_def keep_settled_def
      List.map_filter_simps or_default_def Let_def)

text \<open>
  Claim C7, as the code has it. A request that carries a user id and a message, for a
  user with no rows in any table, is answered with 200, an empty pattern list and
  \<open>should_intervene\<close> false: by the engine's route (when no call is rejected by the
  circuit breaker and the user is within the rate limit) and by the serverless handler.
\<close>

theorem analyze_without_rows:
  assumes "uid \<noteq> []" and "msg \<noteq> []"
  shows "(empty_tables db \<and> \<not> breaker_rejects db \<and> rate uid \<le> 30 \<longrightarrow>
           (\<exists>a. fst (analyze_route lc rate \<lparr>body_userId = Some uid, body_message = Some msg\<rparr>
                        now db uuid random)
                  = \<lparr>er_code = 200, er_success = True, er_result = Some a\<rparr>
                \<and> an_patterns a = [] \<and> an_should_intervene a = False))
       \<and> (empty_procedures inp \<longrightarrow>
           fst (handleAnalyze True \<lparr>body_userId = Some uid, body_message = Some msg\<rparr>
                  now inp store)
           = \<lparr>ar_code = 200, ar_success = True,
              ar_body = Some \<lparr>ab_patterns = [], ab_intervention = None, ab_confidence = Fin 0,
                              should_intervene = False, ab_cached = False\<rparr>\<rparr>)"
proof (intro conjI impI)
  assume h: "empty_tables db \<and> \<not> breaker_rejects db \<and> rate uid \<le> 30"
  then obtain a where a: "analyzeUser lc now db uuid random = Inr a" "an_patterns a = []"
      "\<not> an_should_intervene a"
    using empty_analyzeUser by blast
  with h assms show "\<exists>a. fst (analyze_route lc rate \<lparr>body_userId = Some uid, body_message = Some msg\<rparr>
                        now db uuid random)
                  = \<lparr>er_code = 200, er_success = True, er_result = Some a\<rparr>
                \<and> an_patterns a = [] \<and> an_should_intervene a = False"
    by (simp add: analyze_route_def falsy_def Let_def)
next
  assume "empty_procedures inp"
  with assms show "fst (handleAnalyze True \<lparr>body_userId = Some uid, body_message = Some msg\<rparr>
                  now inp store)
           = \<lparr>ar_code = 200, ar_success = True,
              ar_body = Some \<lparr>ab_patterns = [], ab_intervention = None, ab_confidence = Fin 0,
                              should_intervene = False, ab_cached = False\<rparr>\<rparr>"
    by (simp add: handleAnalyze_def falsy_def empty_detection first_confidence_def Let_def)
qed

theorem analyze_without_rows_witness:
  "fst (handleAnalyze True \<lparr>body_userId = Some ''u2'', body_message = Some ''hello''\<rparr> 0
          blank_inputs blank_store)
   = \<lparr>ar_code = 200, ar_success = True,
      ar_body = Some \<lparr>ab_patterns = [], ab_intervention = None, ab_confidence = Fin 0,
                      should_intervene = False, ab_cached = False\<rparr>\<rparr>
   \<and> er_code (fst (analyze_route lower_ascii (\<lambda>u. 0) \<lparr>body_userId = Some ''u2'', body_message = Some ''hello''\<rparr>
          0 blank_db ''id'' 0)) = 200"
proof -
  have i: "empty_procedures blank_inputs"
    by (simp add: empty_procedures_def blank_inputs_def)
  have d: "empty_tables blank_db \<and> \<not> breaker_rejects blank_db \<and> (\<lambda>u::string. 0::nat) ''u2'' \<le> 30"
    by (simp add: empty_tables_def blank_db_def no_rows_def)
  have n: "''u2'' \<noteq> []" "''hello'' \<noteq> []" by simp_all
  from analyze_without_rows [OF n, where db = blank_db and rate = "\<lambda>u. 0" and now = 0
      and uuid = "''id''" and random = 0 and inp = blank_inputs and store = blank_store
      and lc = lower_ascii] i d
  show ?thesis by auto
qed

text \<open>
  The body \<open>{userId: "u2"}\<close> has no message: both handlers answer 400.
\<close>

theorem analyze_missing_message_counterexample:
  "ar_code (fst (handleAnalyze True \<lparr>body_userId = Some ''u2'', body_message = None\<rparr> 0
       blank_inputs blank_store)) = 400
   \<and> er_code (fst (analyze_route lower_ascii (\<lambda>u. 0) \<lparr>body_userId = Some ''u2'', body_message = None\<rparr> 0
       blank_db ''id'' 0)) = 400"
  by (simp add: handleAnalyze_def analyze_route_def falsy_def)

text \<open>
  Claim C8. A request whose user id or message is missing (or empty) is answered with
  400 by the engine's route and by the serverless handler; no operation is started and
  the rate counter is left as it was.
\<close>

theorem analyze_missing_field:
  assumes "falsy (body_userId req) \<or> falsy (body_message req)"
  shows "analyze_route lc rate req now db uuid random
           = (\<lparr>er_code = 400, er_success = False, er_result = None\<rparr>, [], rate)
       \<and> handleAnalyze initialized req now inp store
           = (\<lparr>ar_code = 400, ar_success = False, ar_body = None\<rparr>, [])"
  using assms by (simp add: analyze_route_def handleAnalyze_def)

theorem analyze_missing_field_witness:
  "analyze_route lower_ascii (\<lambda>u. 0) \<lparr>body_userId = None, body_message = Some ''hi''\<rparr> 0 blank_db ''id'' 0
     = (\<lparr>er_code = 400, er_success = False, er_result = None\<rparr>, [], \<lambda>u. 0)
   \<and> handleAnalyze True \<lparr>body_userId = Some ''u1'', body_message = None\<rparr> 0 blank_inputs blank_store
     = (\<lparr>ar_code = 400, ar_success = False, ar_body = None\<rparr>, [])"
  using analyze_missing_field [where req = "\<lparr>body_userId = None, body_message = Some ''hi''\<rparr>"
      and lc = lower_ascii and rate = "\<lambda>u. 0" and now = 0 and db = blank_db and uuid = "''id''"
      and random = 0 and initialized = True and inp = blank_inputs and store = blank_store]
    analyze_missing_field [where req = "\<lparr>body_userId = Some ''u1'', body_message = None\<rparr>"
      and lc = lower_ascii and rate = "\<lambda>u. 0" and now = 0 and db = blank_db and uuid = "''id''"
      and random = 0 and initialized = True and inp = blank_inputs and store = blank_store]
  by (simp add: falsy_def)

subsection \<open>Failing datastore calls\<close>

lemma failed_rpc_detectors:
  "rpc_fails r1 \<Longrightarrow> detectProcrastinationBrutally r1 mrr = None"
  "rpc_fails r2 \<Longrightarrow> detectPricingCowardiceBrutally r2 = None"
  "rpc_fails r3 \<Longrightarrow> detectExecutionParalysisBrutally r3 = None"
  by (auto simp: rpc_fails_def detectProcrastinationBrutally_def
      detectPricingCowardiceBrutally_def detectExecutionParalysisBrutally_def split: rpc.splits)

lemma handleAnalyze_code:
  "uid \<noteq> [] \<Longrightarrow> msg \<noteq> [] \<Longrightarrow>
   ar_code (fst (handleAnalyze True \<lparr>body_userId = Some uid, body_message = Some msg\<rparr>
     now inp store)) = 200"
  by (simp add: handleAnalyze_def falsy_def Let_def generateIntervention_no_type
      split: prod.splits option.splits)

lemma handleAnalyze_patterns:
  "uid \<noteq> [] \<Longrightarrow> msg \<noteq> [] \<Longrightarrow>
   \<exists>body. ar_body (fst (handleAnalyze True \<lparr>body_userId = Some uid, body_message = Some msg\<rparr>
              now inp store)) = Some body
          \<and> ab_patterns body = det_patterns (fst (detectAllPatternsBrutally now inp))"
  by (simp add: handleAnalyze_def falsy_def Let_def generateIntervention_no_type
      split: prod.splits option.splits)

lemma fresh_detection:
  "cache_row inp = None \<Longrightarrow> \<not> on_vercel inp \<Longrightarrow>
   det_patterns (fst (detectAllPatternsBrutally now inp)) =
     filter_and_sort
       [Fulfilled (detectProcrastinationBrutally (procrastination_rpc inp) (burn_mrr inp)),
        Fulfilled (detectPricingCowardiceBrutally (pricing_rpc inp)),
        Fulfilled (detectExecutionParalysisBrutally (execution_rpc inp))]"
  by (simp add: detectAllPatternsBrutally_def Let_def)

lemma set_map_filter_iff:
  "p \<in> set (List.map_filter f xs) \<longleftrightarrow> (\<exists>x \<in> set xs. f x = Some p)"
  by (induction xs) (auto split: option.splits)

lemma keep_settled_Fulfilled:
  "keep_settled (Fulfilled d) = Some p \<longleftrightarrow> d = Some p \<and> js_gt (bp_confidence p) 0.7"
  by (auto simp: keep_settled_def split: option.splits)

text \<open>
  The list of a fresh detection holds the patterns that the three detectors returned and
  whose confidence is above 0.7, and no other.
\<close>

lemma filter_and_sort_member:
  "p \<in> set (filter_and_sort [Fulfilled d1, Fulfilled d2, Fulfilled d3]) \<longleftrightarrow>
     js_gt (bp_confidence p) 0.7 \<and> (d1 = Some p \<or> d2 = Some p \<or> d3 = Some p)"
proof -
  have "p \<in> set (filter_and_sort [Fulfilled d1, Fulfilled d2, Fulfilled d3]) \<longleftrightarrow>
      p \<in> set (List.map_filter keep_settled [Fulfilled d1, Fulfilled d2, Fulfilled d3])"
    by (simp only: filter_and_sort_def set_sort)
  also have "\<dots> \<longleftrightarrow> keep_settled (Fulfilled d1) = Some p \<or> keep_settled (Fulfilled d2) = Some p
      \<or> keep_settled (Fulfilled d3) = Some p"
    unfolding set_map_filter_iff by simp
  also have "\<dots> \<longleftrightarrow> js_gt (bp_confidence p) 0.7 \<and> (d1 = Some p \<or> d2 = Some p \<or> d3 = Some p)"
    unfolding keep_settled_Fulfilled by blast
  finally show ?thesis .
qed

lemma succeeded_detector:
  "detectProcrastinationBrutally r1 mrr = Some p \<longleftrightarrow>
     \<not> rpc_fails r1 \<and> detectProcrastinationBrutally r1 mrr = Some p"
  "detectPricingCowardiceBrutally r2 = Some p \<longleftrightarrow>
     \<not> rpc_fails r2 \<and> detectPricingCowardiceBrutally r2 = Some p"
  "detectExecutionParalysisBrutally r3 = Some p \<longleftrightarrow>
     \<not> rpc_fails r3 \<and> detectExecutionParalysisBrutally r3 = Some p"
  using failed_rpc_detectors by fastforce+

lemma fresh_patterns:
  assumes "uid \<noteq> []" and "msg \<noteq> []" and "cache_row inp = None" and "\<not> on_vercel inp"
  shows "\<exists>body. ar_body (fst (handleAnalyze True \<lparr>body_userId = Some uid, body_message = Some msg\<rparr>
              now inp store)) = Some body
          \<and> ab_patterns body =
              filter_and_sort
                [Fulfilled (detectProcrastinationBrutally (procrastination_rpc inp) (burn_mrr inp)),
                 Fulfilled (detectPricingCowardiceBrutally (pricing_rpc inp)),
                 Fulfilled (detectExecutionParalysisBrutally (execution_rpc inp))]
          \<and> (\<forall>p. p \<in> set (ab_patterns body) \<longleftrightarrow>
                 js_gt (bp_confidence p) 0.7
                 \<and> (\<not> rpc_fails (procrastination_rpc inp)
                        \<and> detectProcrastinationBrutally (procrastination_rpc inp) (burn_mrr inp) = Some p
                     \<or> \<not> rpc_fails (pricing_rpc inp)
                        \<and> detectPricingCowardiceBrutally (pricing_rpc inp) = Some p
                     \<or> \<not> rpc_fails (execution_rpc inp)
                        \<and> detectExecutionParalysisBrutally (execution_rpc inp) = Some p))"
proof -
  from assms(1,2) obtain body where b: "ar_body (fst (handleAnalyze True
      \<lparr>body_userId = Some uid, body_message = Some msg\<rparr> now inp store)) = Some body"
      "ab_patterns body = det_patterns (fst (detectAllPatternsBrutally now inp))"
    using handleAnalyze_patterns by blast
  from b(2) assms(3,4) have e: "ab_patterns body =
              filter_and_sort
                [Fulfilled (detectProcrastinationBrutally (procrastination_rpc inp) (burn_mrr inp)),
                 Fulfilled (detectPricingCowardiceBrutally (pricing_rpc inp)),
                 Fulfilled (detectExecutionParalysisBrutally (execution_rpc inp))]"
    by (simp add: fresh_detection)
  have m: "\<forall>p. p \<in> set (ab_patterns body) \<longleftrightarrow>
                 js_gt (bp_confidence p) 0.7
                 \<and> (\<not> rpc_fails (procrastination_rpc inp)
                        \<and> detectProcrastinationBrutally (procrastination_rpc inp) (burn_mrr inp) = Some p
                     \<or> \<not> rpc_fails (pricing_rpc inp)
                        \<and> detectPricingCowardiceBrutally (pricing_rpc inp) = Some p
                     \<or> \<not> rpc_fails (execution_rpc inp)
                        \<and> detectExecutionParalysisBrutally (execution_rpc inp) = Some p)"
    unfolding e filter_and_sort_member
    using succeeded_detector by blast
  from b(1) e m show ?thesis by blast
qed

lemma all_failed_detection:
  assumes "cache_row inp = None" and "\<not> on_vercel inp"
    and "rpc_fails (procrastination_rpc inp)" and "rpc_fails (pricing_rpc inp)"
    and "rpc_fails (execution_rpc inp)"
  shows "fst (detectAllPatternsBrutally now inp) =
     \<lparr>det_patterns = [], total_estimated_cost = 0, det_cached = False, det_error = False\<rparr>"
  using assms
  by (simp add: detectAllPatternsBrutally_def failed_rpc_detectors filter_and_sort_def
      keep_settled_def List.map_filter_simps Let_def)

text \<open>
  Claim C4, as the code has it. The serverless handler, its services created, answers
  every request that carries a user id and a message with 200. A stored procedure that
  throws or comes back with an error is caught in its own detector, which then
  contributes no pattern: when nothing is cached and the deployment is not Vercel's,
  the list holds exactly the patterns with a confidence above 0.7 of the detectors whose
  call succeeded, and it is empty when all three fail. In the engine's route a call
  rejected by the circuit breaker is thrown again by \<open>analyzeUser\<close>, and the route
  answers 500, where it answers 200 for a user without rows when no call is rejected.
\<close>

theorem datastore_failure_handling:
  assumes "uid \<noteq> []" and "msg \<noteq> []"
  shows "ar_code (fst (handleAnalyze True \<lparr>body_userId = Some uid, body_message = Some msg\<rparr>
           now inp store)) = 200
       \<and> (rpc_fails r1 \<longrightarrow> detectProcrastinationBrutally r1 mrr = None)
       \<and> (rpc_fails r2 \<longrightarrow> detectPricingCowardiceBrutally r2 = None)
       \<and> (rpc_fails r3 \<longrightarrow> detectExecutionParalysisBrutally r3 = None)
       \<and> (cache_row inp = None \<and> \<not> on_vercel inp \<longrightarrow>
           (\<exists>body. ar_body (fst (handleAnalyze True
                      \<lparr>body_userId = Some uid, body_message = Some msg\<rparr> now inp store)) = Some body
              \<and> ab_patterns body =
                  filter_and_sort
                    [Fulfilled (detectProcrastinationBrutally (procrastination_rpc inp) (burn_mrr inp)),
                     Fulfilled (detectPricingCowardiceBrutally (pricing_rpc inp)),
                     Fulfilled (detectExecutionParalysisBrutally (execution_rpc inp))]
              \<and> (\<forall>p. p \<in> set (ab_patterns body) \<longleftrightarrow>
                     js_gt (bp_confidence p) 0.7
                     \<and> (\<not> rpc_fails (procrastination_rpc inp)
                            \<and> detectProcrastinationBrutally (procrastination_rpc inp) (burn_mrr inp)
                                = Some p
                         \<or> \<not> rpc_fails (pricing_rpc inp)
                            \<and> detectPricingCowardiceBrutally (pricing_rpc inp) = Some p
                         \<or> \<not> rpc_fails (execution_rpc inp)
                            \<and> detectExecutionParalysisBrutally (execution_rpc inp) = Some p))))
       \<and> (cache_row inp = None \<and> \<not> on_vercel inp \<and> rpc_fails (procrastination_rpc inp)
            \<and> rpc_fails (pricing_rpc inp) \<and> rpc_fails (execution_rpc inp) \<longrightarrow>
           fst (handleAnalyze True \<lparr>body_userId = Some uid, body_message = Some msg\<rparr>
                  now inp store)
           = \<lparr>ar_code = 200, ar_success = True,
              ar_body = Some \<lparr>ab_patterns = [], ab_intervention = None, ab_confidence = Fin 0,
                              should_intervene = False, ab_cached = False\<rparr>\<rparr>)
       \<and> (breaker_rejects db \<longrightarrow> analyzeUser lc now db uuid random = Inl Breaker_rejected)
       \<and> (breaker_rejects db \<and> rate uid \<le> 30 \<longrightarrow>
           fst (analyze_route lc rate \<lparr>body_userId = Some uid, body_message = Some msg\<rparr>
                  now db uuid random)
           = \<lparr>er_code = 500, er_success = False, er_result = None\<rparr>)
       \<and> (empty_tables db \<and> \<not> breaker_rejects db \<and> rate uid \<le> 30 \<longrightarrow>
           er_code (fst (analyze_route lc rate \<lparr>body_userId = Some uid, body_message = Some msg\<rparr>
                  now db uuid random)) = 200)"
proof -
  have c1: "ar_code (fst (handleAnalyze True \<lparr>body_userId = Some uid, body_message = Some msg\<rparr>
           now inp store)) = 200"
    using assms by (rule handleAnalyze_code)
  have c2: "rpc_fails r1 \<longrightarrow> detectProcrastinationBrutally r1 mrr = None"
    by (simp add: failed_rpc_detectors)
  have c3: "rpc_fails r2 \<longrightarrow> detectPricingCowardiceBrutally r2 = None"
    by (simp add: failed_rpc_detectors)
  have c4: "rpc_fails r3 \<longrightarrow> detectExecutionParalysisBrutally r3 = None"
    by (simp add: failed_rpc_detectors)
  have c5: "cache_row inp = None \<and> \<not> on_vercel inp \<longrightarrow>
           (\<exists>body. ar_body (fst (handleAnalyze True
                      \<lparr>body_userId = Some uid, body_message = Some msg\<rparr> now inp store)) = Some body
              \<and> ab_patterns body =
                  filter_and_sort
                    [Fulfilled (detectProcrastinationBrutally (procrastination_rpc inp) (burn_mrr inp)),
                     Fulfilled (detectPricingCowardiceBrutally (pricing_rpc inp)),
                     Fulfilled (detectExecutionParalysisBrutally (execution_rpc inp))]
              \<and> (\<forall>p. p \<in> set (ab_patterns body) \<longleftrightarrow>
                     js_gt (bp_confidence p) 0.7
                     \<and> (\<not> rpc_fails (procrastination_rpc inp)
                            \<and> detectProcrastinationBrutally (procrastination_rpc inp) (burn_mrr inp)
                                = Some p
                         \<or> \<not> rpc_fails (pricing_rpc inp)
                            \<and> detectPricingCowardiceBrutally (pricing_rpc inp) = Some p
                         \<or> \<not> rpc_fails (execution_rpc inp)
                            \<and> detectExecutionParalysisBrutally (execution_rpc inp) = Some p)))"
    using fresh_patterns [OF assms] by blast
  have c6: "cache_row inp = None \<and> \<not> on_vercel inp \<and> rpc_fails (procrastination_rpc inp)
            \<and> rpc_fails (pricing_rpc inp) \<and> rpc_fails (execution_rpc inp) \<longrightarrow>
           fst (handleAnalyze True \<lparr>body_userId = Some uid, body_message = Some msg\<rparr>
                  now inp store)
           = \<lparr>ar_code = 200, ar_success = True,
              ar_body = Some \<lparr>ab_patterns = [], ab_intervention = None, ab_confidence = Fin 0,
                              should_intervene = False, ab_cached = False\<rparr>\<rparr>"
  proof
    assume "cache_row inp = None \<and> \<not> on_vercel inp \<and> rpc_fails (procrastination_rpc inp)
            \<and> rpc_fails (pricing_rpc inp) \<and> rpc_fails (execution_rpc inp)"
    then have "fst (detectAllPatternsBrutally now inp) =
       \<lparr>det_patterns = [], total_estimated_cost = 0, det_cached = False, det_error = False\<rparr>"
      by (simp add: all_failed_detection)
    with assms show "fst (handleAnalyze True \<lparr>body_userId = Some uid, body_message = Some msg\<rparr>
                  now inp store)
           = \<lparr>ar_code = 200, ar_success = True,
              ar_body = Some \<lparr>ab_patterns = [], ab_intervention = None, ab_confidence = Fin 0,
                              should_intervene = False, ab_cached = False\<rparr>\<rparr>"
      by (simp add: handleAnalyze_def falsy_def first_confidence_def Let_def)
  qed
  have c7: "breaker_rejects db \<and> rate uid \<le> 30 \<longrightarrow>
           fst (analyze_route lc rate \<lparr>body_userId = Some uid, body_message = Some msg\<rparr>
                  now db uuid random)
           = \<lparr>er_code = 500, er_success = False, er_result = None\<rparr>"
    using assms by (simp add: analyze_route_def falsy_def analyzeUser_def Let_def)
  have c8: "breaker_rejects db \<longrightarrow> analyzeUser lc now db uuid random = Inl Breaker_rejected"
    by (simp add: analyzeUser_def)
  have c9: "empty_tables db \<and> \<not> breaker_rejects db \<and> rate uid \<le> 30 \<longrightarrow>
           er_code (fst (analyze_route lc rate \<lparr>body_userId = Some uid, body_message = Some msg\<rparr>
                  now db uuid random)) = 200"
  proof
    assume h: "empty_tables db \<and> \<not> breaker_rejects db \<and> rate uid \<le> 30"
    then obtain a where "analyzeUser lc now db uuid random = Inr a"
      using empty_analyzeUser by blast
    with h assms show "er_code (fst (analyze_route lc rate
        \<lparr>body_userId = Some uid, body_message = Some msg\<rparr> now db uuid random)) = 200"
      by (simp add: analyze_route_def falsy_def Let_def)
  qed
  from c1 c2 c3 c4 c5 c6 c8 c7 c9 show ?thesis by (intro conjI)
qed

theorem datastore_failure_witness:
  "fst (handleAnalyze True \<lparr>body_userId = Some ''u1'', body_message = Some ''hi''\<rparr> 0
          (blank_inputs\<lparr>procrastination_rpc := Rpc_error, pricing_rpc := Rpc_throws,
             execution_rpc := Rpc_error\<rparr>) blank_store)
   = \<lparr>ar_code = 200, ar_success = True,
      ar_body = Some \<lparr>ab_patterns = [], ab_intervention = None, ab_confidence = Fin 0,
                      should_intervene = False, ab_cached = False\<rparr>\<rparr>
   \<and> fst (analyze_route lower_ascii (\<lambda>u. 0) \<lparr>body_userId = Some ''u1'', body_message = Some ''hi''\<rparr> 0
          (blank_db\<lparr>breaker_rejects := True\<rparr>) ''id'' 0)
   = \<lparr>er_code = 500, er_success = False, er_result = None\<rparr>
   \<and> (\<exists>body. ar_body (fst (handleAnalyze True
          \<lparr>body_userId = Some ''u1'', body_message = Some ''hi''\<rparr> 0 one_failed_procedure
          blank_store)) = Some body
        \<and> map pattern_type (ab_patterns body) = [''pricing_cowardice''])
   \<and> detectProcrastinationBrutally Rpc_error None = None
   \<and> detectPricingCowardiceBrutally Rpc_throws = None
   \<and> detectExecutionParalysisBrutally Rpc_error = None
   \<and> analyzeUser lower_ascii 0 (blank_db\<lparr>breaker_rejects := True\<rparr>) ''id'' 0 = Inl Breaker_rejected
   \<and> er_code (fst (analyze_route lower_ascii (\<lambda>u. 0)
          \<lparr>body_userId = Some ''u1'', body_message = Some ''hi''\<rparr> 0 blank_db ''id'' 0)) = 200"
proof -
  have n: "''u1'' \<noteq> []" "''hi'' \<noteq> []" by simp_all
  note t0 = datastore_failure_handling [OF n, where now = 0 and store = blank_store
      and lc = lower_ascii and rate = "\<lambda>u. 0"
      and uuid = "''id''" and random = 0 and ?r1.0 = Rpc_error and mrr = None
      and ?r2.0 = Rpc_throws and ?r3.0 = Rpc_error]
  note t = t0 [where db = "blank_db\<lparr>breaker_rejects := True\<rparr>"]
  have f: "rpc_fails (Rpc_error :: procrastination_metrics rpc)"
      "rpc_fails (Rpc_throws :: pricing_data rpc)"
      "rpc_fails (Rpc_error :: execution_metrics rpc)"
    by (simp_all add: rpc_fails_def)
  note t1 = t [where inp = "blank_inputs\<lparr>procrastination_rpc := Rpc_error,
      pricing_rpc := Rpc_throws, execution_rpc := Rpc_error\<rparr>"]
  note t2 = t [where inp = one_failed_procedure]
  let ?failed = "blank_inputs\<lparr>procrastination_rpc := Rpc_error,
      pricing_rpc := Rpc_throws, execution_rpc := Rpc_error\<rparr>"
  have h6: "cache_row ?failed = None \<and> \<not> on_vercel ?failed \<and> rpc_fails (procrastination_rpc ?failed)
      \<and> rpc_fails (pricing_rpc ?failed) \<and> rpc_fails (execution_rpc ?failed)"
    by (simp add: blank_inputs_def rpc_fails_def)
  have h7: "breaker_rejects (blank_db\<lparr>breaker_rejects := True\<rparr>) \<and> (\<lambda>u::string. 0::nat) ''u1'' \<le> 30"
    by simp
  have h8: "breaker_rejects (blank_db\<lparr>breaker_rejects := True\<rparr>)"
    by simp
  have h9: "empty_tables blank_db \<and> \<not> breaker_rejects blank_db \<and> (\<lambda>u::string. 0::nat) ''u1'' \<le> 30"
    by (simp add: empty_tables_def blank_db_def no_rows_def)
  have h5: "cache_row one_failed_procedure = None \<and> \<not> on_vercel one_failed_procedure"
    by (simp add: one_failed_procedure_def blank_inputs_def)
  note w1 = t1 [THEN conjunct2, THEN conjunct2, THEN conjunct2, THEN conjunct2, THEN conjunct2,
      THEN conjunct1, THEN mp, OF h6]
  note w2 = t1 [THEN conjunct2, THEN conjunct2, THEN conjunct2, THEN conjunct2, THEN conjunct2,
      THEN conjunct2, THEN conjunct2, THEN conjunct1, THEN mp, OF h7]
  note w7 = t1 [THEN conjunct2, THEN conjunct2, THEN conjunct2, THEN conjunct2, THEN conjunct2,
      THEN conjunct2, THEN conjunct1, THEN mp, OF h8]
  note w8 = t0 [where db = blank_db and inp = blank_inputs, THEN conjunct2, THEN conjunct2,
      THEN conjunct2, THEN conjunct2, THEN conjunct2, THEN conjunct2, THEN conjunct2,
      THEN conjunct2, THEN mp, OF h9]
  from t2 [THEN conjunct2, THEN conjunct2, THEN conjunct2, THEN conjunct2, THEN conjunct1,
      THEN mp, OF h5]
  obtain body where b: "ar_body (fst (handleAnalyze True
          \<lparr>body_userId = Some ''u1'', body_message = Some ''hi''\<rparr> 0 one_failed_procedure
          blank_store)) = Some body"
      "ab_patterns body =
         filter_and_sort
           [Fulfilled (detectProcrastinationBrutally (procrastination_rpc one_failed_procedure)
              (burn_mrr one_failed_procedure)),
            Fulfilled (detectPricingCowardiceBrutally (pricing_rpc one_failed_procedure)),
            Fulfilled (detectExecutionParalysisBrutally (execution_rpc one_failed_procedure))]"
    by blast
  from b(2) have m: "map pattern_type (ab_patterns body) = [''pricing_cowardice'']"
    by (simp add: one_failed_procedure_def blank_inputs_def detectProcrastinationBrutally_def
        detectPricingCowardiceBrutally_def detectExecutionParalysisBrutally_def filter_and_sort_def
        keep_settled_def List.map_filter_simps js_div_def js_round_def or_default_def Let_def)
  have w3: "\<exists>body. ar_body (fst (handleAnalyze True
          \<lparr>body_userId = Some ''u1'', body_message = Some ''hi''\<rparr> 0 one_failed_procedure
          blank_store)) = Some body
        \<and> map pattern_type (ab_patterns body) = [''pricing_cowardice'']"
  proof (intro exI conjI)
    show "ar_body (fst (handleAnalyze True
          \<lparr>body_userId = Some ''u1'', body_message = Some ''hi''\<rparr> 0 one_failed_procedure
          blank_store)) = Some body"
      by (rule b(1))
    show "map pattern_type (ab_patterns body) = [''pricing_cowardice'']"
      by (rule m)
  qed
  note w4 = t1 [THEN conjunct2, THEN conjunct1, THEN mp, OF f(1)]
  note w5 = t1 [THEN conjunct2, THEN conjunct2, THEN conjunct1, THEN mp, OF f(2)]
  note w6 = t1 [THEN conjunct2, THEN conjunct2, THEN conjunct2, THEN conjunct1, THEN mp, OF f(3)]
  from w1 w2 w3 w4 w5 w6 w7 w8 show ?thesis by (intro conjI)
qed

text \<open>
  A rejected call in the engine gives 500; in the handler one failed procedure leaves the
  pattern of another in the list.
\<close>

theorem datastore_failure_counterexample:
  "er_code (fst (analyze_route lower_ascii (\<lambda>u. 0) \<lparr>body_userId = Some ''u1'', body_message = Some ''hi''\<rparr> 0
          (blank_db\<lparr>breaker_rejects := True\<rparr>) ''id'' 0)) = 500
   \<and> ar_code (fst (handleAnalyze True \<lparr>body_userId = Some ''u1'', body_message = Some ''hi''\<rparr> 0
          (blank_inputs\<lparr>procrastination_rpc := Rpc_error,
             pricing_rpc := Rpc_data (Some \<lparr>market_average = 100, your_price = 20,
                                             customer_count = 10\<rparr>)\<rparr>) blank_store)) = 200
   \<and> map_option (map pattern_type \<circ> ab_patterns)
        (ar_body (fst (handleAnalyze True \<lparr>body_userId = Some ''u1'', body_message = Some ''hi''\<rparr> 0
          (blank_inputs\<lparr>procrastination_rpc := Rpc_error,
             pricing_rpc := Rpc_data (Some \<lparr>market_average = 100, your_price = 20,
                                             customer_count = 10\<rparr>)\<rparr>) blank_store)))
      = Some [''pricing_cowardice'']"
proof -
  have d: "fst (detectAllPatternsBrutally 0
          (blank_inputs\<lparr>procrastination_rpc := Rpc_error,
             pricing_rpc := Rpc_data (Some \<lparr>market_average = 100, your_price = 20,
                                             customer_count = 10\<rparr>)\<rparr>))
      = \<lparr>det_patterns =
           [\<lparr>pattern_type = ''pricing_cowardice'', bp_confidence = Fin 0.95, bp_severity = Critical,
             bp_evidence = [(''your_price'', Fin 20), (''market_average'', Fin 100),
                            (''gap_percent'', Fin 80), (''customer_count'', Fin 10)],
             bp_estimated_cost = 800\<rparr>],
          total_estimated_cost = 800, det_cached = False, det_error = False\<rparr>"
    by (simp add: blank_inputs_def detectAllPatternsBrutally_def detectProcrastinationBrutally_def
        detectPricingCowardiceBrutally_def detectExecutionParalysisBrutally_def filter_and_sort_def
        keep_settled_def List.map_filter_simps js_div_def js_round_def or_default_def Let_def)
  show ?thesis
    by (simp add: handleAnalyze_def analyze_route_def analyzeUser_def falsy_def blank_db_def d Let_def
        generateIntervention_no_type split: prod.splits)
qed

subsection \<open>Merged pattern lists\<close>

lemma include_result_Some:
  "include_result ty result = Some p \<Longrightarrow>
   ptype p = ty \<and> js_gt (p_confidence p) 0.7
   \<and> (\<exists>r. result = Some r \<and> p_confidence p = confidence r)"
  by (auto simp: include_result_def split: option.splits if_splits)

lemma set_detectDataDrivenPatterns:
  "set (detectDataDrivenPatterns rs) =
     {p. \<exists>ty result. (ty, result) \<in> set rs \<and> include_result ty result = Some p}"
  by (force simp: detectDataDrivenPatterns_def List.map_filter_def)

lemma sorted_detectDataDrivenPatterns:
  "sorted_wrt (\<lambda>a b. cost b \<le> cost a) (detectDataDrivenPatterns rs)"
proof -
  have "sorted (map (\<lambda>p. - cost p) (detectDataDrivenPatterns rs))"
    unfolding detectDataDrivenPatterns_def by (rule sorted_sort_key)
  then show ?thesis by (simp add: sorted_map)
qed

lemma sorted_filter_and_sort:
  "sorted_wrt (\<lambda>a b. bp_estimated_cost b \<le> bp_estimated_cost a) (filter_and_sort settled)"
proof -
  have "sorted (map (\<lambda>p. - bp_estimated_cost p) (filter_and_sort settled))"
    unfolding filter_and_sort_def by (rule sorted_sort_key)
  then show ?thesis by (simp add: sorted_map)
qed

lemma primary_pattern_fields:
  "generateUncomfortableIntervention (p # ps) data uuid random = Inr iv \<Longrightarrow>
   iv_pattern iv = Some (ptype p) \<and> iv_severity iv = Some (p_severity p)
   \<and> iv_confidence iv = Some (p_confidence p) \<and> iv_estimated_cost iv = Some (cost p)"
  by (auto simp: generateUncomfortableIntervention_def split: sum.splits)

text \<open>
  Claim C1, as the code has it. The merged list is sorted by estimated cost, highest
  first, in the engine and in the optimizer. In the engine the primary pattern is the
  first element: an intervention that \<open>generateUncomfortableIntervention\<close> returns for
  a non-empty list carries the type, severity, confidence and cost of that element, and
  no other element costs more. The serverless handler gives the intervention generator
  the first pattern of the list whose severity is critical, and generates nothing when
  there is none.
\<close>

theorem patterns_sorted_by_cost:
  assumes "uid \<noteq> []" and "msg \<noteq> []"
  shows "sorted_wrt (\<lambda>a b. cost b \<le> cost a) (detectDataDrivenPatterns rs)
       \<and> (detectDataDrivenPatterns rs = p # ps
             \<and> generateUncomfortableIntervention (p # ps) data uuid random = Inr iv \<longrightarrow>
           iv_pattern iv = Some (ptype p) \<and> iv_severity iv = Some (p_severity p)
           \<and> iv_confidence iv = Some (p_confidence p) \<and> iv_estimated_cost iv = Some (cost p)
           \<and> (\<forall>q \<in> set ps. cost q \<le> cost p))
       \<and> sorted_wrt (\<lambda>a b. bp_estimated_cost b \<le> bp_estimated_cost a) (filter_and_sort settled)
       \<and> (cache_row inp = None \<and> \<not> on_vercel inp \<longrightarrow>
           sorted_wrt (\<lambda>a b. bp_estimated_cost b \<le> bp_estimated_cost a)
             (det_patterns (fst (detectAllPatternsBrutally now inp))))
       \<and> (\<exists>body. ar_body (fst (handleAnalyze True
                \<lparr>body_userId = Some uid, body_message = Some msg\<rparr> now inp store)) = Some body
            \<and> map_option Inr (ab_intervention body) =
                map_option
                  (\<lambda>cp. generateIntervention (competitor_count store) (Some None)
                           (Some (bp_evidence cp))
                           (Some \<lparr>ud_userId = uid, has_businessMetrics = False\<rparr>)
                           (Some (getUserResistanceLevel (resistance_read store)
                                    (resistance_rows store) uid)))
                  (find (\<lambda>p. bp_severity p = Critical) (ab_patterns body)))"
proof -
  have c1: "sorted_wrt (\<lambda>a b. cost b \<le> cost a) (detectDataDrivenPatterns rs)"
    by (rule sorted_detectDataDrivenPatterns)
  have c2: "detectDataDrivenPatterns rs = p # ps
             \<and> generateUncomfortableIntervention (p # ps) data uuid random = Inr iv \<longrightarrow>
           iv_pattern iv = Some (ptype p) \<and> iv_severity iv = Some (p_severity p)
           \<and> iv_confidence iv = Some (p_confidence p) \<and> iv_estimated_cost iv = Some (cost p)
           \<and> (\<forall>q \<in> set ps. cost q \<le> cost p)"
  proof
    assume h: "detectDataDrivenPatterns rs = p # ps
       \<and> generateUncomfortableIntervention (p # ps) data uuid random = Inr iv"
    then have "sorted_wrt (\<lambda>a b. cost b \<le> cost a) (p # ps)"
      using sorted_detectDataDrivenPatterns [of rs] by simp
    then have "\<forall>q \<in> set ps. cost q \<le> cost p" by simp
    with h primary_pattern_fields [of p ps data uuid random iv]
    show "iv_pattern iv = Some (ptype p) \<and> iv_severity iv = Some (p_severity p)
             \<and> iv_confidence iv = Some (p_confidence p) \<and> iv_estimated_cost iv = Some (cost p)
             \<and> (\<forall>q \<in> set ps. cost q \<le> cost p)"
      by simp
  qed
  have c3: "sorted_wrt (\<lambda>a b. bp_estimated_cost b \<le> bp_estimated_cost a) (filter_and_sort settled)"
    by (rule sorted_filter_and_sort)
  have c4: "cache_row inp = None \<and> \<not> on_vercel inp \<longrightarrow>
           sorted_wrt (\<lambda>a b. bp_estimated_cost b \<le> bp_estimated_cost a)
             (det_patterns (fst (detectAllPatternsBrutally now inp)))"
    by (simp add: fresh_detection sorted_filter_and_sort)
  have c5: "\<exists>body. ar_body (fst (handleAnalyze True
                \<lparr>body_userId = Some uid, body_message = Some msg\<rparr> now inp store)) = Some body
            \<and> map_option Inr (ab_intervention body) =
                map_option
                  (\<lambda>cp. generateIntervention (competitor_count store) (Some None)
                           (Some (bp_evidence cp))
                           (Some \<lparr>ud_userId = uid, has_businessMetrics = False\<rparr>)
                           (Some (getUserResistanceLevel (resistance_read store)
                                    (resistance_rows store) uid)))
                  (find (\<lambda>p. bp_severity p = Critical) (ab_patterns body))"
    using assms by (rule handleAnalyze_intervention)
  from c1 c2 c3 c4 c5 show ?thesis by (intro conjI)
qed

lemma delayed_and_underpriced_detection:
  "det_patterns (fst (detectAllPatternsBrutally 0 delayed_and_underpriced)) =
     [\<lparr>pattern_type = ''pricing_cowardice'', bp_confidence = Fin 0.8, bp_severity = High,
       bp_evidence = [(''your_price'', Fin 60), (''market_average'', Fin 100),
                      (''gap_percent'', Fin 40), (''customer_count'', Fin 100)],
       bp_estimated_cost = 4000\<rparr>,
      \<lparr>pattern_type = ''procrastination'', bp_confidence = Fin 0.95, bp_severity = Critical,
       bp_evidence = [(''total_delay_days'', Fin 84), (''oldest_task_age_days'', Fin 84),
                      (''daily_burn_rate'', Fin 10)],
       bp_estimated_cost = 840\<rparr>]"
  by (simp add: delayed_and_underpriced_def blank_inputs_def detectAllPatternsBrutally_def
      detectProcrastinationBrutally_def detectPricingCowardiceBrutally_def
      detectExecutionParalysisBrutally_def filter_and_sort_def keep_settled_def
      getDailyBurnRate_def js_div_def js_round_def or_default_def Let_def)

text \<open>
  The handler finds the pricing pattern (cost 4000, severity high) ahead of the
  procrastination pattern (cost 840, severity critical) and builds the intervention from
  the evidence of the second.
\<close>

theorem critical_pattern_not_first_counterexample:
  "map_option (map pattern_type \<circ> ab_patterns)
     (ar_body (fst (handleAnalyze True \<lparr>body_userId = Some ''u1'', body_message = Some ''hi''\<rparr> 0
        delayed_and_underpriced blank_store)))
     = Some [''pricing_cowardice'', ''procrastination'']
   \<and> map_option (map bp_estimated_cost \<circ> ab_patterns)
     (ar_body (fst (handleAnalyze True \<lparr>body_userId = Some ''u1'', body_message = Some ''hi''\<rparr> 0
        delayed_and_underpriced blank_store)))
     = Some [4000, 840]
   \<and> map_option ab_intervention
     (ar_body (fst (handleAnalyze True \<lparr>body_userId = Some ''u1'', body_message = Some ''hi''\<rparr> 0
        delayed_and_underpriced blank_store)))
     = Some (Some (Default_brutal
         [(''total_delay_days'', Fin 84), (''oldest_task_age_days'', Fin 84),
          (''daily_burn_rate'', Fin 10)]))"
  by (simp add: handleAnalyze_def falsy_def Let_def delayed_and_underpriced_detection
      generateIntervention_no_type split: prod.splits)

lemma two_detector_results_sorted:
  "detectDataDrivenPatterns two_detector_results =
     [\<lparr>ptype = ''procrastination'', p_severity = Critical, p_confidence = Fin 0.9,
       p_evidence = [], cost = 900\<rparr>,
      \<lparr>ptype = ''competitive_delusion'', p_severity = Critical, p_confidence = Fin 0.85,
       p_evidence = [], cost = 500\<rparr>]"
  by (simp add: two_detector_results_def detectDataDrivenPatterns_def include_result_def)

lemma two_detector_results_intervention:
  "generateUncomfortableIntervention (detectDataDrivenPatterns two_detector_results)
     \<lparr>ml_suggestion = None, interventionHistory = Some (\<lambda>t. [])\<rparr> ''id'' 0
   = Inr \<lparr>iv_intervention = Some (Base_intervention
            \<lparr>ptype = ''procrastination'', p_severity = Critical, p_confidence = Fin 0.9,
             p_evidence = [], cost = 900\<rparr>),
          iv_pattern = Some ''procrastination'', iv_severity = Some Critical,
          iv_confidence = Some (Fin 0.9), iv_estimated_cost = Some 900,
          iv_tracking_id = ''id'', iv_ml_enhanced = True\<rparr>"
  by (simp add: two_detector_results_sorted generateUncomfortableIntervention_def
      ml_generateIntervention_def)

theorem patterns_sorted_by_cost_witness:
  "sorted_wrt (\<lambda>a b. bp_estimated_cost b \<le> bp_estimated_cost a)
     (det_patterns (fst (detectAllPatternsBrutally 0 delayed_and_underpriced)))
   \<and> (\<exists>body. ar_body (fst (handleAnalyze True
                \<lparr>body_userId = Some ''u1'', body_message = Some ''hi''\<rparr> 0
                delayed_and_underpriced blank_store)) = Some body
            \<and> map_option Inr (ab_intervention body) =
                map_option
                  (\<lambda>cp. generateIntervention (competitor_count blank_store) (Some None)
                           (Some (bp_evidence cp))
                           (Some \<lparr>ud_userId = ''u1'', has_businessMetrics = False\<rparr>)
                           (Some (getUserResistanceLevel (resistance_read blank_store)
                                    (resistance_rows blank_store) ''u1'')))
                  (find (\<lambda>p. bp_severity p = Critical) (ab_patterns body)))
   \<and> (\<exists>iv. generateUncomfortableIntervention (detectDataDrivenPatterns two_detector_results)
              \<lparr>ml_suggestion = None, interventionHistory = Some (\<lambda>t. [])\<rparr> ''id'' 0 = Inr iv
          \<and> iv_pattern iv = Some ''procrastination'' \<and> iv_estimated_cost iv = Some 900)"
proof -
  have n: "''u1'' \<noteq> []" "''hi'' \<noteq> []" by simp_all
  have f: "cache_row delayed_and_underpriced = None \<and> \<not> on_vercel delayed_and_underpriced"
    by (simp add: delayed_and_underpriced_def blank_inputs_def)
  define p where "p = \<lparr>ptype = ''procrastination'', p_severity = Critical, p_confidence = Fin 0.9,
       p_evidence = [], cost = 900\<rparr>"
  define q where "q = \<lparr>ptype = ''competitive_delusion'', p_severity = Critical,
       p_confidence = Fin 0.85, p_evidence = [], cost = 500\<rparr>"
  define iv where "iv = \<lparr>iv_intervention = Some (Base_intervention p),
          iv_pattern = Some ''procrastination'', iv_severity = Some Critical,
          iv_confidence = Some (Fin 0.9), iv_estimated_cost = Some 900,
          iv_tracking_id = ''id'', iv_ml_enhanced = True\<rparr>"
  have s: "detectDataDrivenPatterns two_detector_results = p # [q]"
    by (simp add: two_detector_results_sorted p_def q_def)
  have g: "generateUncomfortableIntervention (p # [q])
             \<lparr>ml_suggestion = None, interventionHistory = Some (\<lambda>t. [])\<rparr> ''id'' 0 = Inr iv"
    using two_detector_results_intervention
    by (simp add: two_detector_results_sorted p_def q_def iv_def)
  note t = patterns_sorted_by_cost [OF n, where rs = two_detector_results and p = p and ps = "[q]"
      and data = "\<lparr>ml_suggestion = None, interventionHistory = Some (\<lambda>t. [])\<rparr>"
      and uuid = "''id''" and random = 0 and iv = iv and inp = delayed_and_underpriced
      and now = 0 and store = blank_store]
  note w1 = t [THEN conjunct2, THEN conjunct2, THEN conjunct2, THEN conjunct1, THEN mp, OF f]
  note w2 = t [THEN conjunct2, THEN conjunct2, THEN conjunct2, THEN conjunct2]
  from t [THEN conjunct2, THEN conjunct1, THEN mp, OF conjI [OF s g]]
  have "iv_pattern iv = Some ''procrastination'' \<and> iv_estimated_cost iv = Some 900"
    by (simp add: p_def)
  with g s have w3: "\<exists>iv. generateUncomfortableIntervention (detectDataDrivenPatterns two_detector_results)
              \<lparr>ml_suggestion = None, interventionHistory = Some (\<lambda>t. [])\<rparr> ''id'' 0 = Inr iv
          \<and> iv_pattern iv = Some ''procrastination'' \<and> iv_estimated_cost iv = Some 900"
    by simp
  from w1 w2 w3 show ?thesis by (intro conjI)
qed

text \<open>
  In \<open>analyzeUser\<close> the object given to the generator has no \<open>interventionHistory\<close>,
  so indexing it throws whenever a pattern was detected, and the route answers 500.
\<close>

lemma analyzeUser_throws_on_patterns:
  assumes "\<not> breaker_rejects db"
    and "detectDataDrivenPatterns
           (run_detectors lc now (getBusinessTruth db) (getCompetitiveReality db) db) \<noteq> []"
  shows "analyzeUser lc now db uuid random = Inl TypeError"
  using assms
  by (simp add: analyzeUser_def generateUncomfortableIntervention_def ml_generateIntervention_def
      Let_def split: list.splits)

lemma top_earner_metrics:
  "getBusinessTruth top_earner_db =
     \<lparr>current_mrr = 5000, avg_transaction_value = 0, product_count = 1, revenue_history = []\<rparr>"
  by (simp add: top_earner_db_def blank_db_def getBusinessTruth_def or_default_def)

lemma top_earner_detected:
  "map ptype (detectDataDrivenPatterns
     (run_detectors lower_ascii 0 (getBusinessTruth top_earner_db) (getCompetitiveReality top_earner_db)
        top_earner_db)) = [''competitive_delusion'']"
proof -
  have comp: "getCompetitiveReality top_earner_db =
          [\<lparr>monthly_recurring_revenue = 100, comp_product_count = 1\<rparr>,
           \<lparr>monthly_recurring_revenue = 100, comp_product_count = 1\<rparr>,
           \<lparr>monthly_recurring_revenue = 100, comp_product_count = 1\<rparr>,
           \<lparr>monthly_recurring_revenue = 100, comp_product_count = 1\<rparr>,
           \<lparr>monthly_recurring_revenue = 100, comp_product_count = 1\<rparr>]"
    by (simp add: top_earner_db_def blank_db_def getCompetitiveReality_def)
  have t: "pending_tasks top_earner_db = Some []" "feedback_messages top_earner_db = Some []"
    "typed_tasks top_earner_db = Some []" "blocker_rows top_earner_db = Some []"
    by (simp_all add: top_earner_db_def blank_db_def)
  have p: "ProcrastinationDetector_detect lower_ascii 0 (getBusinessTruth top_earner_db) (Some []) (Some []) = None"
    by (simp add: ProcrastinationDetector_detect_def empty_task_delays empty_language no_rows_def
        no_delays_def)
  have c: "PricingCowardiceDetector_detect (getBusinessTruth top_earner_db)
             (getCompetitiveReality top_earner_db) = None"
    by (simp add: top_earner_metrics comp PricingCowardiceDetector_detect_def comparePricing_def
        js_div_def Let_def)
  have e: "ExecutionParalysisDetector_detect lower_ascii 0 (getBusinessTruth top_earner_db)
             (getCompetitiveReality top_earner_db) (Some []) (Some []) = None"
    by (simp add: ExecutionParalysisDetector_detect_def empty_planning empty_blockers no_rows_def)
  have r: "calculateRanking (getBusinessTruth top_earner_db) (getCompetitiveReality top_earner_db)
             = \<lparr>rank = 1, percentile = 17\<rparr>"
    by (simp add: top_earner_metrics comp calculateRanking_def indexOf_def js_round_def Let_def)
  have d: "CompetitiveDelusionDetector_detect (getBusinessTruth top_earner_db)
             (getCompetitiveReality top_earner_db) =
           Some \<lparr>confidence = Fin 0.85, dr_severity = Critical, estimated_cost = Some (- 4900),
                 dr_evidence = Some
                   [(''your_rank'', Fin 1), (''total_competitors'', Fin 5), (''percentile'', Fin 17),
                    (''revenue_gap'', Fin (- 4900)), (''top_performer_revenue'', Fin 100)]\<rparr>"
    unfolding CompetitiveDelusionDetector_detect_def r
    by (simp add: top_earner_metrics comp js_round_def)
  have s: "RevenueStagnationDetector_detect (getBusinessTruth top_earner_db) = None"
    by (simp add: top_earner_metrics RevenueStagnationDetector_detect_def)
  show ?thesis
    by (simp add: run_detectors_def t p c e d s detectDataDrivenPatterns_def include_result_def)
qed

lemma top_earner_analysis_fails:
  "analyzeUser lower_ascii 0 top_earner_db ''id'' 0 = Inl TypeError
   \<and> er_code (fst (analyze_route lower_ascii (\<lambda>u. 0) \<lparr>body_userId = Some ''u1'', body_message = Some ''hi''\<rparr>
        0 top_earner_db ''id'' 0)) = 500"
proof -
  have b: "\<not> breaker_rejects top_earner_db"
    by (simp add: top_earner_db_def blank_db_def)
  have "detectDataDrivenPatterns
     (run_detectors lower_ascii 0 (getBusinessTruth top_earner_db) (getCompetitiveReality top_earner_db)
        top_earner_db) \<noteq> []"
    using top_earner_detected by auto
  with b have "analyzeUser lower_ascii 0 top_earner_db ''id'' 0 = Inl TypeError"
    by (rule analyzeUser_throws_on_patterns)
  then show ?thesis
    by (simp add: analyze_route_def falsy_def)
qed

subsection \<open>The confidence filter\<close>

lemma keep_settled_Some:
  "keep_settled s = Some p \<Longrightarrow> js_gt (bp_confidence p) 0.7"
  by (auto simp: keep_settled_def split: settled.splits option.splits if_splits)

lemma above_threshold_filter_and_sort:
  "\<forall>p \<in> set (filter_and_sort settled). js_gt (bp_confidence p) 0.7"
proof
  fix p assume "p \<in> set (filter_and_sort settled)"
  then obtain s where "keep_settled s = Some p"
    by (auto simp: filter_and_sort_def List.map_filter_def)
  then show "js_gt (bp_confidence p) 0.7" by (rule keep_settled_Some)
qed

lemma include_result_None_iff:
  "include_result ty (Some r) = None \<longleftrightarrow> \<not> (js_gt (confidence r) 0.7 \<and> dr_evidence r \<noteq> None)"
  by (auto simp: include_result_def split: option.splits)

lemma run_detectors_pricing:
  "(''pricing_cowardice'', result) \<in> set (run_detectors lc now bm comps db)
   \<Longrightarrow> result = PricingCowardiceDetector_detect bm comps"
  by (simp add: run_detectors_def)

lemma pricing_dropped:
  assumes "PricingCowardiceDetector_detect bm comps = Some r"
    and "\<not> js_gt (confidence r) 0.7"
  shows "''pricing_cowardice'' \<notin> ptype ` set (detectDataDrivenPatterns (run_detectors lc now bm comps db))"
proof
  assume "''pricing_cowardice'' \<in> ptype ` set (detectDataDrivenPatterns (run_detectors lc now bm comps db))"
  then obtain p ty result where p: "(ty, result) \<in> set (run_detectors lc now bm comps db)"
      "include_result ty result = Some p" "ptype p = ''pricing_cowardice''"
    by (auto simp: set_detectDataDrivenPatterns)
  from p(2) have "ptype p = ty" by (simp add: include_result_Some)
  with p(3) have ty: "ty = ''pricing_cowardice''" by simp
  from p(1) have "result = PricingCowardiceDetector_detect bm comps"
    unfolding ty by (rule run_detectors_pricing)
  with assms(1) have "result = Some r" by simp
  with p(2) assms(2) show False
    by (simp add: include_result_def split: option.splits)
qed

lemma fresh_above_threshold:
  "list_all (\<lambda>p. js_gt (bp_confidence p) 0.7) (filter_and_sort settled)"
  using above_threshold_filter_and_sort by (simp add: list_all_iff)

lemma cache_keeps_threshold:
  assumes c: "case cache_row inp of None \<Rightarrow> True | Some (d, t) \<Rightarrow> above_threshold d"
    and q: "case pooled inp of Inl e \<Rightarrow> True | Inr d \<Rightarrow> above_threshold d"
  shows "above_threshold (fst (detectAllPatternsBrutally now inp))
       \<and> (case snd (detectAllPatternsBrutally now inp) of
             None \<Rightarrow> True | Some (d, t) \<Rightarrow> above_threshold d)"
proof (cases "cache_row inp")
  case None
  show ?thesis
  proof (cases "on_vercel inp")
    case True
    with None q show ?thesis
      by (cases "pooled inp") (simp_all add: detectAllPatternsBrutally_def above_threshold_def)
  next
    case False
    with None show ?thesis
      by (simp add: detectAllPatternsBrutally_def above_threshold_def fresh_above_threshold Let_def)
  qed
next
  case (Some row)
  obtain d t where row: "row = (d, t)" by (cases row)
  with Some c have d: "above_threshold d" by simp
  show ?thesis
  proof (cases "now - t < cacheExpiry (on_vercel inp)")
    case True
    with Some row d show ?thesis
      by (simp add: detectAllPatternsBrutally_def)
  next
    case stale: False
    show ?thesis
    proof (cases "on_vercel inp")
      case True
      with Some row d stale q show ?thesis
        by (cases "pooled inp") (simp_all add: detectAllPatternsBrutally_def)
    next
      case False
      with Some row stale show ?thesis
        by (simp add: detectAllPatternsBrutally_def above_threshold_def fresh_above_threshold Let_def)
    qed
  qed
qed

text \<open>
  Claim C10. Every pattern of the merged list has a confidence strictly above 0.7, in
  the engine and in the optimizer; a detector result is left out exactly when its
  confidence is not above 0.7 (or it has no evidence), although the detector fired. The
  pattern cache keeps the property: if the cached detection and the pooler's detection
  have it, so have the detection returned and the row cached afterwards. A pricing
  result whose confidence is not above 0.7 never appears in the engine's list.
\<close>

theorem patterns_above_threshold:
  "(\<forall>p \<in> set (detectDataDrivenPatterns rs). js_gt (p_confidence p) 0.7)
   \<and> (include_result ty (Some r) = None \<longleftrightarrow> \<not> (js_gt (confidence r) 0.7 \<and> dr_evidence r \<noteq> None))
   \<and> (\<forall>p \<in> set (filter_and_sort settled). js_gt (bp_confidence p) 0.7)
   \<and> ((case cache_row inp of None \<Rightarrow> True | Some (d, t) \<Rightarrow> above_threshold d)
        \<and> (case pooled inp of Inl e \<Rightarrow> True | Inr d \<Rightarrow> above_threshold d) \<longrightarrow>
       above_threshold (fst (detectAllPatternsBrutally now inp))
       \<and> (case snd (detectAllPatternsBrutally now inp) of
             None \<Rightarrow> True | Some (d, t) \<Rightarrow> above_threshold d))
   \<and> (PricingCowardiceDetector_detect bm comps = Some r' \<and> \<not> js_gt (confidence r') 0.7 \<longrightarrow>
       ''pricing_cowardice'' \<notin> ptype ` set (detectDataDrivenPatterns (run_detectors lc now bm comps db)))"
proof -
  have c1: "\<forall>p \<in> set (detectDataDrivenPatterns rs). js_gt (p_confidence p) 0.7"
  proof
    fix p assume "p \<in> set (detectDataDrivenPatterns rs)"
    then obtain ty result where "include_result ty result = Some p"
      by (auto simp: set_detectDataDrivenPatterns)
    then show "js_gt (p_confidence p) 0.7" by (simp add: include_result_Some)
  qed
  have c2: "include_result ty (Some r) = None \<longleftrightarrow> \<not> (js_gt (confidence r) 0.7 \<and> dr_evidence r \<noteq> None)"
    by (rule include_result_None_iff)
  have c3: "\<forall>p \<in> set (filter_and_sort settled). js_gt (bp_confidence p) 0.7"
    by (rule above_threshold_filter_and_sort)
  have c4: "(case cache_row inp of None \<Rightarrow> True | Some (d, t) \<Rightarrow> above_threshold d)
        \<and> (case pooled inp of Inl e \<Rightarrow> True | Inr d \<Rightarrow> above_threshold d) \<longrightarrow>
       above_threshold (fst (detectAllPatternsBrutally now inp))
       \<and> (case snd (detectAllPatternsBrutally now inp) of
             None \<Rightarrow> True | Some (d, t) \<Rightarrow> above_threshold d)"
  proof
    assume "(case cache_row inp of None \<Rightarrow> True | Some (d, t) \<Rightarrow> above_threshold d)
        \<and> (case pooled inp of Inl e \<Rightarrow> True | Inr d \<Rightarrow> above_threshold d)"
    then show "above_threshold (fst (detectAllPatternsBrutally now inp))
       \<and> (case snd (detectAllPatternsBrutally now inp) of
             None \<Rightarrow> True | Some (d, t) \<Rightarrow> above_threshold d)"
      using cache_keeps_threshold [of inp now] by (elim conjE)
  qed
  have c5: "PricingCowardiceDetector_detect bm comps = Some r' \<and> \<not> js_gt (confidence r') 0.7 \<longrightarrow>
       ''pricing_cowardice'' \<notin> ptype ` set (detectDataDrivenPatterns (run_detectors lc now bm comps db))"
  proof
    assume "PricingCowardiceDetector_detect bm comps = Some r' \<and> \<not> js_gt (confidence r') 0.7"
    then show "''pricing_cowardice'' \<notin> ptype ` set (detectDataDrivenPatterns (run_detectors lc now bm comps db))"
      using pricing_dropped [of bm comps r' lc now db] by (elim conjE)
  qed
  from c1 c2 c3 c4 c5 show ?thesis by (intro conjI)
qed

lemma quarter_below_market_detected:
  "PricingCowardiceDetector_detect quarter_below_market
     [\<lparr>monthly_recurring_revenue = 100, comp_product_count = 1\<rparr>]
   = Some \<lparr>confidence = Fin 0.25, dr_severity = High, estimated_cost = Some 25,
           dr_evidence = Some [(''gap_percent'', Fin 25)]\<rparr>"
  by (simp add: quarter_below_market_def PricingCowardiceDetector_detect_def comparePricing_def
      js_div_def js_round_def Let_def)

theorem patterns_above_threshold_witness:
  "PricingCowardiceDetector_detect quarter_below_market
     [\<lparr>monthly_recurring_revenue = 100, comp_product_count = 1\<rparr>]
   = Some \<lparr>confidence = Fin 0.25, dr_severity = High, estimated_cost = Some 25,
           dr_evidence = Some [(''gap_percent'', Fin 25)]\<rparr>
   \<and> ''pricing_cowardice'' \<notin> ptype ` set (detectDataDrivenPatterns
        (run_detectors lower_ascii 0 quarter_below_market
           [\<lparr>monthly_recurring_revenue = 100, comp_product_count = 1\<rparr>] blank_db))
   \<and> above_threshold (fst (detectAllPatternsBrutally 0 delayed_and_underpriced))"
proof -
  have a: "\<not> js_gt (confidence \<lparr>confidence = Fin 0.25, dr_severity = High, estimated_cost = Some 25,
           dr_evidence = Some [(''gap_percent'', Fin 25)]\<rparr>) 0.7"
    by simp
  have b: "(case cache_row delayed_and_underpriced of None \<Rightarrow> True | Some (d, t) \<Rightarrow> above_threshold d)
        \<and> (case pooled delayed_and_underpriced of Inl e \<Rightarrow> True | Inr d \<Rightarrow> above_threshold d)"
    by (simp add: delayed_and_underpriced_def blank_inputs_def)
  note t = patterns_above_threshold [where inp = delayed_and_underpriced and now = 0
      and bm = quarter_below_market
      and comps = "[\<lparr>monthly_recurring_revenue = 100, comp_product_count = 1\<rparr>]"
      and r' = "\<lparr>confidence = Fin 0.25, dr_severity = High, estimated_cost = Some 25,
           dr_evidence = Some [(''gap_percent'', Fin 25)]\<rparr>" and db = blank_db]
  note t4 = t [THEN conjunct2, THEN conjunct2, THEN conjunct2, THEN conjunct1, THEN mp, OF b,
      THEN conjunct1]
  note t5 = t [THEN conjunct2, THEN conjunct2, THEN conjunct2, THEN conjunct2, THEN mp,
      OF conjI [OF quarter_below_market_detected a]]
  from quarter_below_market_detected t5 t4 show ?thesis by (intro conjI)
qed

subsection \<open>Confidence bounds\<close>

lemma foldl_plus_sum_list:
  "foldl (\<lambda>sum x. sum + f x) (a::'a::comm_monoid_add) xs = a + sum_list (map f xs)"
  by (induction xs arbitrary: a) (simp_all add: add.assoc)

lemma delayScore_le_1: "delayScore (analyzeTaskDelays now tasks) \<le> 1"
  by (simp add: analyzeTaskDelays_def no_delays_def Let_def split: option.splits)

lemma delayScore_nonneg:
  assumes "\<forall>t \<in> set (task_rows tasks). created_at t \<le> now"
  shows "0 \<le> delayScore (analyzeTaskDelays now tasks)"
proof (cases tasks)
  case None
  then show ?thesis by (simp add: analyzeTaskDelays_def no_delays_def)
next
  case (Some ts)
  have "0 \<le> sum_list (map (\<lambda>t. (now - created_at t) div ms_per_day) ts)"
  proof (rule sum_list_nonneg)
    fix x assume "x \<in> set (map (\<lambda>t. (now - created_at t) div ms_per_day) ts)"
    then obtain t where "t \<in> set ts" "x = (now - created_at t) div ms_per_day" by auto
    with assms Some show "0 \<le> x"
      by (simp add: task_rows_def ms_per_day_def pos_imp_zdiv_nonneg_iff)
  qed
  then have "0 \<le> real_of_int (sum_list (map (\<lambda>t. (now - created_at t) div ms_per_day) ts))
      / real (length ts)"
    by simp
  with Some show ?thesis
    using foldl_plus_sum_list [of "\<lambda>d. d" "0::int" "map (\<lambda>t. (now - created_at t) div ms_per_day) ts"]
    by (simp add: analyzeTaskDelays_def no_delays_def Let_def)
qed

lemma ratio_bounds:
  "0 \<le> real a / real (if a + b = 0 then 1 else a + b)
   \<and> real a / real (if a + b = 0 then 1 else a + b) \<le> 1"
  by (simp add: divide_le_eq)

lemma futureScore_bounds:
  "0 \<le> futureScore (analyzeLanguagePatterns lc messages)
   \<and> futureScore (analyzeLanguagePatterns lc messages) \<le> 1"
proof (cases messages)
  case None
  then show ?thesis by (simp add: analyzeLanguagePatterns_def)
next
  case (Some ms)
  show ?thesis
  proof (cases "ms = []")
    case True
    with Some show ?thesis by (simp add: analyzeLanguagePatterns_def)
  next
    case False
    define texts where "texts = map (\<lambda>m. lc (case m of None \<Rightarrow> [] | Some s \<Rightarrow> s)) ms"
    define fc where "fc = sum_list (map (count_words futureWords) texts)"
    define ac where "ac = sum_list (map (count_words actionWords) texts)"
    have eq: "futureScore (analyzeLanguagePatterns lc messages)
        = real fc / real (if fc + ac = 0 then 1 else fc + ac)"
      using Some False
      by (simp add: analyzeLanguagePatterns_def Let_def fc_def ac_def texts_def)
    show ?thesis unfolding eq by (rule ratio_bounds)
  qed
qed

lemma procrastination_confidence:
  assumes "ProcrastinationDetector_detect lc now bm tasks messages = Some r"
  shows "\<exists>c. confidence r = Fin c \<and> c \<le> 1
           \<and> ((\<forall>t \<in> set (task_rows tasks). created_at t \<le> now) \<longrightarrow> 0 \<le> c)"
proof -
  let ?d = "delayScore (analyzeTaskDelays now tasks)"
  let ?f = "futureScore (analyzeLanguagePatterns lc messages)"
  from assms have c: "confidence r = Fin ((?d + ?f) / 2)"
    by (auto simp: ProcrastinationDetector_detect_def Let_def split: if_splits)
  have "(?d + ?f) / 2 \<le> 1"
    using delayScore_le_1 [of now tasks] futureScore_bounds [of lc messages] by simp
  moreover have "(\<forall>t \<in> set (task_rows tasks). created_at t \<le> now) \<longrightarrow> 0 \<le> (?d + ?f) / 2"
    using delayScore_nonneg [of tasks now] futureScore_bounds [of lc messages] by auto
  ultimately show ?thesis using c by blast
qed

lemma underpriced_confidence:
  "js_gt g 20 \<Longrightarrow> \<exists>c. js_min (js_scale g (1 / 100)) 0.95 = Fin c \<and> 0 \<le> c \<and> c \<le> 1"
proof (cases g)
  case (Fin x)
  assume "js_gt g 20"
  with Fin have "20 < x" by simp
  then have "0 \<le> min (x * (1 / 100)) 0.95 \<and> min (x * (1 / 100)) 0.95 \<le> 1" by simp
  with Fin show ?thesis by simp
next
  case PInf
  then have "js_min (js_scale g (1 / 100)) 0.95 = Fin 0.95 \<and> (0::real) \<le> 0.95 \<and> (0.95::real) \<le> 1"
    by simp
  then show ?thesis by (rule exI)
qed simp_all

lemma pricing_confidence:
  assumes "PricingCowardiceDetector_detect bm comps = Some r"
  shows "\<exists>c. confidence r = Fin c \<and> 0 \<le> c \<and> c \<le> 1"
proof -
  from assms have u: "underpriced (comparePricing bm comps)"
    and c: "confidence r = pc_confidence (comparePricing bm comps)"
    by (auto simp: PricingCowardiceDetector_detect_def Let_def split: if_splits)
  from u obtain g where "js_gt g 20"
      "pc_confidence (comparePricing bm comps) = js_min (js_scale g (1 / 100)) 0.95"
    by (auto simp: comparePricing_def not_underpriced_def Let_def split: if_splits)
  with c show ?thesis using underpriced_confidence by simp
qed

lemma execution_confidence:
  assumes "ExecutionParalysisDetector_detect lc now bm comps tasks rows = Some r"
  shows "\<exists>c. confidence r = Fin c \<and> 0 \<le> c \<and> c \<le> 1"
proof -
  let ?p = "pr_confidence (calculatePlanningToExecutionRatio lc tasks)"
  let ?b = "bl_confidence (identifyBlockers now rows)"
  from assms have c: "confidence r = Fin ((?p + ?b) / 2)"
    by (auto simp: ExecutionParalysisDetector_detect_def Let_def split: if_splits)
  have p: "0 \<le> ?p \<and> ?p \<le> 0.9"
    by (simp add: calculatePlanningToExecutionRatio_def Let_def)
  have b: "0 \<le> ?b \<and> ?b \<le> 0.9"
    by (auto simp: identifyBlockers_def min_def split: option.splits list.splits)
  from p b have "0 \<le> (?p + ?b) / 2 \<and> (?p + ?b) / 2 \<le> 1" by simp
  with c show ?thesis by blast
qed

lemma competitive_confidence:
  assumes "CompetitiveDelusionDetector_detect bm comps = Some r"
  shows "\<exists>c. confidence r = Fin c \<and> 0 \<le> c \<and> c \<le> 1"
proof -
  from assms have "confidence r = Fin 0.85"
    by (auto simp: CompetitiveDelusionDetector_detect_def Let_def split: if_splits)
  moreover have "(0::real) \<le> 0.85 \<and> (0.85::real) \<le> 1" by simp
  ultimately show ?thesis by blast
qed

lemma stagnation_confidence:
  assumes "RevenueStagnationDetector_detect bm = Some r"
  shows "\<exists>c. confidence r = Fin c \<and> 0 \<le> c \<and> c \<le> 1"
proof -
  let ?c = "st_confidence (analyzeStagnation (revenue_history bm))"
  from assms have c: "confidence r = Fin ?c"
    by (auto simp: RevenueStagnationDetector_detect_def Let_def split: if_splits)
  have "0 \<le> ?c \<and> ?c \<le> 1"
    by (simp add: analyzeStagnation_def Let_def min_def)
  with c show ?thesis by blast
qed

lemma detector_confidence:
  assumes "(ty, Some r) \<in> set (run_detectors lc now bm comps db)"
  shows "\<exists>c. confidence r = Fin c \<and> c \<le> 1
           \<and> ((\<forall>t \<in> set (task_rows (pending_tasks db)). created_at t \<le> now) \<longrightarrow> 0 \<le> c)"
proof -
  from assms consider
      "ProcrastinationDetector_detect lc now bm (pending_tasks db) (feedback_messages db) = Some r"
    | "PricingCowardiceDetector_detect bm comps = Some r"
    | "ExecutionParalysisDetector_detect lc now bm comps (typed_tasks db) (blocker_rows db) = Some r"
    | "CompetitiveDelusionDetector_detect bm comps = Some r"
    | "RevenueStagnationDetector_detect bm = Some r"
    by (auto simp: run_detectors_def)
  then show ?thesis
  proof cases
    case 1 then show ?thesis by (rule procrastination_confidence)
  next
    case 2 then show ?thesis using pricing_confidence by blast
  next
    case 3 then show ?thesis using execution_confidence by blast
  next
    case 4 then show ?thesis using competitive_confidence by blast
  next
    case 5 then show ?thesis using stagnation_confidence by blast
  qed
qed

lemma prediction_accuracy_bounds:
  "0 \<le> calculatePredictionAccuracy ps \<and> calculatePredictionAccuracy ps \<le> 1"
proof (cases "ps = []")
  case True
  then show ?thesis by (simp add: calculatePredictionAccuracy_def)
next
  case False
  have "length (filter (\<lambda>p. outcome_verified p \<and> pred_confidence p > 0.7) ps) \<le> length ps"
    by (rule length_filter_le)
  with False show ?thesis
    by (simp add: calculatePredictionAccuracy_def divide_le_eq)
qed

lemma valid_getUserBehavioralProfile:
  assumes "case cached_profile db of None \<Rightarrow> True | Some p \<Rightarrow> valid_profile p"
  shows "valid_profile (getUserBehavioralProfile db)"
  using assms prediction_accuracy_bounds
  by (simp add: getUserBehavioralProfile_def valid_profile_def split: option.splits)

lemma weighted_confidence:
  assumes "0 \<le> q" "q \<le> (1::real)" "0 \<le> a" "a \<le> 1" "0 \<le> x" "x \<le> 1"
  shows "0 \<le> q * 0.3 + a * 0.5 + x * 0.2 \<and> q * 0.3 + a * 0.5 + x * 0.2 \<le> 1"
  using assms by simp

lemma calculateRealConfidence_bounds:
  assumes v: "valid_profile bh"
    and h: "case ps of [] \<Rightarrow> True | p # _ \<Rightarrow> \<exists>c. p_confidence p = Fin c \<and> 0 \<le> c \<and> c \<le> 1"
  shows "\<exists>c. calculateRealConfidence ps bh = Fin c \<and> 0 \<le> c \<and> c \<le> 1"
proof -
  define q where "q = min (real (total_signals bh) / 10) 1"
  define a where "a = (if prediction_accuracy bh = 0 then 0.5 else prediction_accuracy bh)"
  have q: "0 \<le> q" "q \<le> 1" by (simp_all add: q_def)
  from v have a: "0 \<le> a" "a \<le> 1" by (simp_all add: a_def valid_profile_def)
  have "\<exists>x. (case ps of [] \<Rightarrow> Fin 0.5 | p # _ \<Rightarrow> p_confidence p) = Fin x \<and> 0 \<le> x \<and> x \<le> 1"
  proof (cases ps)
    case Nil
    show ?thesis by (rule exI [of _ "0.5"]) (simp add: Nil)
  next
    case (Cons p qs)
    with h show ?thesis by simp
  qed
  then obtain x where x: "(case ps of [] \<Rightarrow> Fin 0.5 | p # _ \<Rightarrow> p_confidence p) = Fin x"
      "0 \<le> x" "x \<le> 1"
    by blast
  have "calculateRealConfidence ps bh = Fin (q * 0.3 + a * 0.5 + x * 0.2)"
    using x(1) by (simp add: calculateRealConfidence_def q_def a_def Let_def)
  with weighted_confidence [OF q a x(2,3)] show ?thesis by blast
qed

lemma first_pattern_confidence:
  "case detectDataDrivenPatterns (run_detectors lc now bm comps db) of
     [] \<Rightarrow> True
   | p # _ \<Rightarrow> \<exists>c. p_confidence p = Fin c \<and> 0 \<le> c \<and> c \<le> 1"
proof (cases "detectDataDrivenPatterns (run_detectors lc now bm comps db)")
  case Nil
  then show ?thesis by simp
next
  case (Cons p ps)
  then have "p \<in> set (detectDataDrivenPatterns (run_detectors lc now bm comps db))" by simp
  then obtain ty result where m: "(ty, result) \<in> set (run_detectors lc now bm comps db)"
      and i: "include_result ty result = Some p"
    by (auto simp: set_detectDataDrivenPatterns)
  from i obtain r where r: "result = Some r" "p_confidence p = confidence r"
      and g: "js_gt (p_confidence p) 0.7"
    using include_result_Some by blast
  from m r obtain c where c: "confidence r = Fin c" "c \<le> 1"
    using detector_confidence by blast
  with r g have "0 \<le> c" by simp
  with c r Cons show ?thesis by simp
qed

lemma js_min_above:
  assumes "js_gt (js_min y 0.95) 0.7"
  shows "\<exists>c. js_min y 0.95 = Fin c \<and> 0.7 < c \<and> c \<le> 0.95"
proof (cases y)
  case (Fin x)
  from assms Fin have a: "0.7 < min x 0.95" by simp
  have b: "min x 0.95 \<le> 0.95" by (rule min.cobounded2)
  have e: "js_min y 0.95 = Fin (min x 0.95)" using Fin by simp
  from e a b show ?thesis by blast
next
  case PInf
  then have "js_min y 0.95 = Fin 0.95 \<and> (0.7::real) < 0.95 \<and> (0.95::real) \<le> 0.95" by simp
  then show ?thesis by (rule exI)
next
  case NInf
  with assms show ?thesis by simp
next
  case NaN
  with assms show ?thesis by simp
qed

lemma brutal_confidence_kept:
  assumes "p \<in> set (filter_and_sort
       [Fulfilled (detectProcrastinationBrutally r1 mrr),
        Fulfilled (detectPricingCowardiceBrutally r2),
        Fulfilled (detectExecutionParalysisBrutally r3)])"
  shows "\<exists>c. bp_confidence p = Fin c \<and> 0.7 < c \<and> c \<le> 0.95"
proof -
  from assms have "p \<in> set (List.map_filter keep_settled
       [Fulfilled (detectProcrastinationBrutally r1 mrr),
        Fulfilled (detectPricingCowardiceBrutally r2),
        Fulfilled (detectExecutionParalysisBrutally r3)])"
    by (simp only: filter_and_sort_def set_sort)
  then obtain s where "s \<in> set [Fulfilled (detectProcrastinationBrutally r1 mrr),
        Fulfilled (detectPricingCowardiceBrutally r2),
        Fulfilled (detectExecutionParalysisBrutally r3)]" and k: "keep_settled s = Some p"
    unfolding set_map_filter_iff by blast
  then have s: "keep_settled s = Some p"
      "s = Fulfilled (detectProcrastinationBrutally r1 mrr)
       \<or> s = Fulfilled (detectPricingCowardiceBrutally r2)
       \<or> s = Fulfilled (detectExecutionParalysisBrutally r3)"
    by simp_all
  from s(1) have g: "js_gt (bp_confidence p) 0.7" by (rule keep_settled_Some)
  from s have "\<exists>y. bp_confidence p = js_min y 0.95"
  proof (elim disjE)
    assume "s = Fulfilled (detectProcrastinationBrutally r1 mrr)"
    with s(1) have "detectProcrastinationBrutally r1 mrr = Some p"
      by (auto simp: keep_settled_def split: option.splits if_splits)
    then have "\<exists>x. bp_confidence p = js_min (Fin x) 0.95"
      by (auto simp: detectProcrastinationBrutally_def Let_def split: rpc.splits)
    then show ?thesis by blast
  next
    assume "s = Fulfilled (detectPricingCowardiceBrutally r2)"
    with s(1) have "detectPricingCowardiceBrutally r2 = Some p"
      by (auto simp: keep_settled_def split: option.splits if_splits)
    then show ?thesis
      by (auto simp: detectPricingCowardiceBrutally_def Let_def split: rpc.splits option.splits)
  next
    assume "s = Fulfilled (detectExecutionParalysisBrutally r3)"
    with s(1) have "detectExecutionParalysisBrutally r3 = Some p"
      by (auto simp: keep_settled_def split: option.splits if_splits)
    then show ?thesis
      by (auto simp: detectExecutionParalysisBrutally_def Let_def split: rpc.splits if_splits)
  qed
  with g show ?thesis using js_min_above by auto
qed

lemma fresh_confidences:
  assumes "cache_row inp = None" and "\<not> on_vercel inp"
  shows "(\<forall>p \<in> set (det_patterns (fst (detectAllPatternsBrutally now inp))).
            \<exists>c. bp_confidence p = Fin c \<and> 0.7 < c \<and> c \<le> 0.95)
       \<and> (\<exists>c. first_confidence (det_patterns (fst (detectAllPatternsBrutally now inp))) = Fin c
              \<and> 0 \<le> c \<and> c \<le> 0.95)"
proof -
  let ?ps = "det_patterns (fst (detectAllPatternsBrutally now inp))"
  have all: "\<forall>p \<in> set ?ps. \<exists>c. bp_confidence p = Fin c \<and> 0.7 < c \<and> c \<le> 0.95"
    using assms brutal_confidence_kept by (simp add: fresh_detection)
  have "\<exists>c. first_confidence ?ps = Fin c \<and> 0 \<le> c \<and> c \<le> 0.95"
  proof (cases ?ps)
    case Nil
    then show ?thesis by (simp add: first_confidence_def)
  next
    case (Cons p ps)
    with all obtain c where "bp_confidence p = Fin c" "0.7 < c" "c \<le> 0.95" by auto
    with Cons show ?thesis by (simp add: first_confidence_def)
  qed
  with all show ?thesis by blast
qed

text \<open>
  What holds of the confidences. Every confidence computed by one of the five detectors
  is a finite number of at most 1, and it is at least 0 when no pending task is dated
  after the clock. The top-level confidence of the engine lies between 0 and 1. In a
  fresh detection of the optimizer the confidences of the patterns that reach the list
  lie above 0.7 and at most at 0.95, and the handler's top-level confidence lies between
  0 and 0.95.
\<close>

lemma confidence_bounds:
  "((ty, Some r) \<in> set (run_detectors lc now bm comps db) \<longrightarrow>
      (\<exists>c. confidence r = Fin c \<and> c \<le> 1
         \<and> ((\<forall>t \<in> set (task_rows (pending_tasks db)). created_at t \<le> now) \<longrightarrow> 0 \<le> c)))
   \<and> ((case cached_profile db of None \<Rightarrow> True | Some p \<Rightarrow> valid_profile p) \<longrightarrow>
      (\<exists>c. calculateRealConfidence (detectDataDrivenPatterns (run_detectors lc now bm comps db))
              (getUserBehavioralProfile db) = Fin c \<and> 0 \<le> c \<and> c \<le> 1))
   \<and> (cache_row inp = None \<and> \<not> on_vercel inp \<longrightarrow>
      (\<forall>p \<in> set (det_patterns (fst (detectAllPatternsBrutally now inp))).
            \<exists>c. bp_confidence p = Fin c \<and> 0.7 < c \<and> c \<le> 0.95)
       \<and> (\<exists>c. first_confidence (det_patterns (fst (detectAllPatternsBrutally now inp))) = Fin c
              \<and> 0 \<le> c \<and> c \<le> 0.95))"
proof -
  have c1: "(ty, Some r) \<in> set (run_detectors lc now bm comps db) \<longrightarrow>
      (\<exists>c. confidence r = Fin c \<and> c \<le> 1
         \<and> ((\<forall>t \<in> set (task_rows (pending_tasks db)). created_at t \<le> now) \<longrightarrow> 0 \<le> c))"
    using detector_confidence by blast
  have c2: "(case cached_profile db of None \<Rightarrow> True | Some p \<Rightarrow> valid_profile p) \<longrightarrow>
      (\<exists>c. calculateRealConfidence (detectDataDrivenPatterns (run_detectors lc now bm comps db))
              (getUserBehavioralProfile db) = Fin c \<and> 0 \<le> c \<and> c \<le> 1)"
  proof
    assume "case cached_profile db of None \<Rightarrow> True | Some p \<Rightarrow> valid_profile p"
    then have "valid_profile (getUserBehavioralProfile db)"
      by (rule valid_getUserBehavioralProfile)
    then show "\<exists>c. calculateRealConfidence (detectDataDrivenPatterns (run_detectors lc now bm comps db))
              (getUserBehavioralProfile db) = Fin c \<and> 0 \<le> c \<and> c \<le> 1"
      using first_pattern_confidence by (rule calculateRealConfidence_bounds)
  qed
  have c3: "cache_row inp = None \<and> \<not> on_vercel inp \<longrightarrow>
      (\<forall>p \<in> set (det_patterns (fst (detectAllPatternsBrutally now inp))).
            \<exists>c. bp_confidence p = Fin c \<and> 0.7 < c \<and> c \<le> 0.95)
       \<and> (\<exists>c. first_confidence (det_patterns (fst (detectAllPatternsBrutally now inp))) = Fin c
              \<and> 0 \<le> c \<and> c \<le> 0.95)"
    using fresh_confidences by blast
  from c1 c2 c3 show ?thesis by (intro conjI)
qed

text \<open>
  The optimizer's pricing detector has no test on the gap: for a user who charges more
  than the market average it returns a pattern with a negative confidence, which the
  filter then drops.
\<close>

lemma overpriced_brutal_confidence:
  "map_option bp_confidence
     (detectPricingCowardiceBrutally
        (Rpc_data (Some \<lparr>market_average = 100, your_price = 150, customer_count = 10\<rparr>)))
   = Some (Fin (- 1))"
  by (simp add: detectPricingCowardiceBrutally_def js_div_def Let_def)

text \<open>
  Claim C3. \<open>analyzeTaskDelays\<close> computes \<open>delayScore: Math.min(avgDelay / 30, 1)\<close>
  under the comment \<open>Normalize to 0-1\<close>, but nothing bounds the score from below. A
  pending task created one millisecond after the clock has a delay of \<open>-1\<close> day
  (\<open>Math.floor\<close> of a negative fraction): the delay score is \<open>-1/30\<close>, and with no
  messages the procrastination detector returns the confidence \<open>-1/60\<close>, which is not
  in the interval from 0 to 1.
\<close>

theorem negative_delay_confidence:
  "delayScore (analyzeTaskDelays 1700000000000
      (Some [\<lparr>task_requested = ''launch'', created_at = 1700000000001\<rparr>])) = - 1 / 30
   \<and> map_option confidence
       (ProcrastinationDetector_detect lower_ascii 1700000000000 quarter_below_market
          (Some [\<lparr>task_requested = ''launch'', created_at = 1700000000001\<rparr>]) None)
     = Some (Fin (- 1 / 60))"
  by (simp add: ProcrastinationDetector_detect_def analyzeTaskDelays_def
      analyzeLanguagePatterns_def ms_per_day_def Let_def)

end
